theory Spec2Isabelle
  imports Main
begin

section \<open>Strings, numbers and headers as the worker sees them\<close>

text \<open>
  The worker (\<^verbatim>\<open>src/index.ts\<close>, with \<^verbatim>\<open>crypto.ts\<close> and \<^verbatim>\<open>gzip.ts\<close>) is glue code
  around capabilities of its runtime. Text is a \<^typ>\<open>string\<close>; a \<^verbatim>\<open>Uint8Array\<close> is a
  list of 8-bit characters as well, one character per byte.
\<close>

type_synonym bytes = string

datatype error =
    DataError | InvalidCharacterError | OperationError | SyntaxError
  | RangeError | TypeError | GzipError | CodecError | D1Error

text \<open>\<^verbatim>\<open>String.prototype.includes\<close>: does \<open>sub\<close> occur in \<open>s\<close> as a contiguous run?\<close>

fun startsWith :: "string \<Rightarrow> string \<Rightarrow> bool" where
  "startsWith s [] = True"
| "startsWith [] (p # ps) = False"
| "startsWith (c # cs) (p # ps) = (c = p \<and> startsWith cs ps)"

fun str_includes :: "string \<Rightarrow> string \<Rightarrow> bool" where
  "str_includes [] sub = (sub = [])"
| "str_includes (c # cs) sub = (startsWith (c # cs) sub \<or> str_includes cs sub)"

text \<open>ASCII lower-casing, as header names are compared.\<close>

definition lowerChar :: "char \<Rightarrow> char" where
  "lowerChar c =
     (let n = (of_char c :: nat) in if 65 \<le> n \<and> n \<le> 90 then char_of (n + 32) else c)"

definition toLowerCase :: "string \<Rightarrow> string" where
  "toLowerCase s = map lowerChar s"

text \<open>
  A \<^verbatim>\<open>Headers\<close> object is the list of its entries, as iterating it yields them: one
  pair per name, the values of a repeated name already joined. \<^verbatim>\<open>get\<close> compares names
  without regard to case and answers \<^verbatim>\<open>null\<close> (\<open>None\<close>) for an absent name.
\<close>

type_synonym headers = "(string \<times> string) list"

definition headers_get :: "headers \<Rightarrow> string \<Rightarrow> string option" where
  "headers_get hs name = map_of (map (\<lambda>(k, v). (toLowerCase k, v)) hs) (toLowerCase name)"

definition headers_delete :: "headers \<Rightarrow> string \<Rightarrow> headers" where
  "headers_delete hs name = filter (\<lambda>(k, v). toLowerCase k \<noteq> toLowerCase name) hs"

subsection \<open>Numbers: Number.parseInt and Number.prototype.toString\<close>

text \<open>
  The only Numbers the worker makes from text are those of \<^verbatim>\<open>Number.parseInt\<close>: \<^verbatim>\<open>NaN\<close>,
  written \<open>None\<close>, or a double whose value is an integer, written \<open>Some i\<close> with its
  exact value \<open>i\<close>. The two infinities are written as \<open>2^1024\<close> and its negative, the magnitude that
  follows the greatest finite double.
\<close>

type_synonym jsnum = "int option"

definition infinity :: int where
  "infinity = 2 ^ 1024"

text \<open>The number of binary digits of a positive integer.\<close>

function bitLength :: "int \<Rightarrow> nat" where
  "bitLength n = (if n \<le> 0 then 0 else Suc (bitLength (n div 2)))"
  by pat_completeness auto
termination
  by (relation "measure nat") auto

declare bitLength.simps [simp del]

text \<open>
  The double nearest to a non-negative integer: below \<open>2^53\<close> the integer itself,
  above it the integer rounded to 53 binary digits, a tie going to the even one.
\<close>

definition roundToDouble :: "int \<Rightarrow> int" where
  "roundToDouble a =
     (if a < 9007199254740992 then a
      else
        (let sh = bitLength a - 53;
             q = a div 2 ^ sh;
             r = a mod 2 ^ sh;
             half = 2 ^ (sh - 1)
         in (if r > half \<or> (r = half \<and> odd q) then q + 1 else q) * 2 ^ sh))"

definition toNumber :: "int \<Rightarrow> jsnum" where
  "toNumber i =
     (let v = min (roundToDouble \<bar>i\<bar>) infinity in Some (if i < 0 then - v else v))"

definition isWhiteSpace :: "char \<Rightarrow> bool" where
  "isWhiteSpace c = ((of_char c :: nat) \<in> {9, 10, 11, 12, 13, 32, 160})"

definition isDigit :: "char \<Rightarrow> bool" where
  "isDigit c = (48 \<le> (of_char c :: nat) \<and> (of_char c :: nat) \<le> 57)"

definition digitVal :: "char \<Rightarrow> int" where
  "digitVal c = int (of_char c) - 48"

text \<open>The value of a run of decimal digits, most significant first.\<close>

definition digitsValue :: "string \<Rightarrow> int" where
  "digitsValue ds = foldl (\<lambda>acc c. 10 * acc + digitVal c) 0 ds"

text \<open>
  \<^verbatim>\<open>Number.parseInt(s, 10)\<close>: skip leading white space, read an optional sign, then
  the longest run of digits; no digit at all gives \<^verbatim>\<open>NaN\<close>, and the integer read is
  rounded to a double. (Beyond 20 significant digits the standard lets an engine round
  less exactly; the model rounds correctly.)
\<close>

definition parseInt :: "string \<Rightarrow> jsnum" where
  "parseInt s =
     (let t = dropWhile isWhiteSpace s;
          neg = (case t of [] \<Rightarrow> False | c # _ \<Rightarrow> c = CHR ''-'');
          u = (case t of [] \<Rightarrow> [] | c # r \<Rightarrow> if c = CHR ''-'' \<or> c = CHR ''+'' then r else t);
          ds = takeWhile isDigit u
      in if ds = [] then None
         else toNumber (if neg then - digitsValue ds else digitsValue ds))"

fun natToString :: "nat \<Rightarrow> string" where
  "natToString n =
     (if n < 10 then [char_of (48 + n)]
      else natToString (n div 10) @ [char_of (48 + n mod 10)])"

declare natToString.simps [simp del]

text \<open>The decimal digits of a non-negative integer.\<close>

function decimalDigits :: "int \<Rightarrow> string" where
  "decimalDigits n =
     (if n < 10 then [char_of (48 + nat n)]
      else decimalDigits (n div 10) @ [char_of (48 + nat (n mod 10))])"
  by pat_completeness auto
termination
  by (relation "measure nat") auto

declare decimalDigits.simps [simp del]

text \<open>
  \<^verbatim>\<open>Number.prototype.toString\<close> prints the decimal with the fewest significant digits
  that still reads back as the same double, the one closest to the double if there are
  several. \<open>shortest v d\<close> looks for it among the multiples of \<open>10^(d+1)\<close>, then of
  \<open>10^d\<close>, and so on down to \<open>v\<close> itself.
\<close>

fun shortest :: "int \<Rightarrow> nat \<Rightarrow> int" where
  "shortest v 0 = v"
| "shortest v (Suc d) =
     (let unit = 10 ^ Suc d;
          lo = (v div unit) * unit;
          hi = lo + unit;
          okLo = (roundToDouble lo = v);
          okHi = (roundToDouble hi = v)
      in if okLo \<and> okHi then
           (if v - lo < hi - v then lo
            else if hi - v < v - lo then hi
            else if even (lo div unit) then lo else hi)
         else if okLo then lo
         else if okHi then hi
         else shortest v d)"

definition stripZeros :: "string \<Rightarrow> string" where
  "stripZeros s = rev (dropWhile (\<lambda>c. c = CHR ''0'') (rev s))"

text \<open>
  A double below \<open>2^53\<close> that is an integer prints as that integer; a greater one prints
  its shortest decimal, in full up to 21 digits and in exponent form from there on.
\<close>

definition posToString :: "int \<Rightarrow> string" where
  "posToString v =
     (if v < 9007199254740992 then decimalDigits v
      else
        (let ds = decimalDigits (shortest v (length (decimalDigits v) - 1));
             n = length ds
         in if n \<le> 21 then ds
            else (case stripZeros ds of
                    [] \<Rightarrow> []
                  | d # rest \<Rightarrow>
                      (if rest = [] then [d] else d # CHR ''.'' # rest)
                        @ ''e+'' @ decimalDigits (int n - 1))))"

definition numToString :: "jsnum \<Rightarrow> string" where
  "numToString x =
     (case x of
        None \<Rightarrow> ''NaN''
      | Some i \<Rightarrow>
          if i \<ge> infinity then ''Infinity''
          else if i \<le> - infinity then ''-Infinity''
          else if i < 0 then CHR ''-'' # posToString (- i)
          else posToString i)"

section \<open>index.ts: the pure helpers\<close>

definition bypassCacheOnPath :: "string list" where
  "bypassCacheOnPath = [''/realtime/'', ''/subscriptions/'']"

definition defaultTTL :: int where
  "defaultTTL = 900"

text \<open>\<^verbatim>\<open>key === expectedKey\<close>. The header may be \<^verbatim>\<open>null\<close>, the secret may be
  \<^verbatim>\<open>undefined\<close> (both \<open>None\<close> here), and \<^verbatim>\<open>null === undefined\<close> is false.\<close>

definition isValidServiceKey :: "string option \<Rightarrow> string option \<Rightarrow> bool" where
  "isValidServiceKey key expectedKey =
     (case (key, expectedKey) of (Some k, Some e) \<Rightarrow> k = e | _ \<Rightarrow> False)"

text \<open>
  The regular expression literal in \<^verbatim>\<open>parseTTL\<close> is \<^verbatim>\<open>/max-age=(\\d+)/\<close>. Inside a
  literal \<^verbatim>\<open>\\\<close> is an escaped backslash, so the pattern reads: the text \<^verbatim>\<open>max-age=\<close>,
  one backslash, then one or more letters \<^verbatim>\<open>d\<close>; the group holds the backslash and the
  letters. \<open>matchMaxAge\<close> gives the group of the leftmost match.
\<close>

definition maxAgePrefix :: string where
  "maxAgePrefix = ''max-age='' @ [CHR 0x5C]"

fun matchMaxAge :: "string \<Rightarrow> string option" where
  "matchMaxAge [] = None"
| "matchMaxAge (c # cs) =
     (let rest = drop (length maxAgePrefix) (c # cs) in
      if startsWith (c # cs) maxAgePrefix \<and> takeWhile (\<lambda>x. x = CHR ''d'') rest \<noteq> []
      then Some (CHR 0x5C # takeWhile (\<lambda>x. x = CHR ''d'') rest)
      else matchMaxAge cs)"

text \<open>A string is truthy when it is neither \<^verbatim>\<open>null\<close> nor empty.\<close>

definition truthy :: "string option \<Rightarrow> string option" where
  "truthy x = (case x of Some (c # cs) \<Rightarrow> Some (c # cs) | _ \<Rightarrow> None)"

definition parseTTL :: "headers \<Rightarrow> int" where
  "parseTTL hs =
     (let useTTL0 = parseInt (numToString (Some defaultTTL));
          useTTL =
            (case truthy (headers_get hs ''x-ttl'') of
               Some ttlHeader \<Rightarrow> parseInt ttlHeader
             | None \<Rightarrow>
                 (case truthy (headers_get hs ''Cache-Control'') of
                    Some cacheControl \<Rightarrow>
                      (case matchMaxAge cacheControl of
                         Some g \<Rightarrow> parseInt g
                       | None \<Rightarrow> useTTL0)
                  | None \<Rightarrow> useTTL0));
          ttl = parseInt (numToString useTTL)
      in case ttl of
           Some t \<Rightarrow> if t > 0 then t else defaultTTL
         | None \<Rightarrow> defaultTTL)"

definition canCacheEndpoint :: "string \<Rightarrow> bool" where
  "canCacheEndpoint url = (\<not> list_ex (\<lambda>path. str_includes url path) bypassCacheOnPath)"

record request =
  rq_method :: string
  rq_url :: string
  rq_headers :: headers
  rq_body :: "bytes option"

record response =
  rs_status :: int
  rs_headers :: headers
  rs_body :: bytes

text \<open>The getter \<^verbatim>\<open>Response.ok\<close>: the status is in the range 200 to 299.\<close>

definition rs_ok :: "response \<Rightarrow> bool" where
  "rs_ok r = (200 \<le> rs_status r \<and> rs_status r \<le> 299)"

definition shouldCacheResponse :: "request \<Rightarrow> response \<Rightarrow> bool" where
  "shouldCacheResponse rq rs =
     (if \<not> rs_ok rs then False
      else if rs_status rs < 200 \<or> rs_status rs \<ge> 300 then False
      else if (case headers_get (rs_headers rs) ''Cache-Control'' of
                 Some cc \<Rightarrow> str_includes cc ''no-store''
               | None \<Rightarrow> False) then False
      else if rq_method rq \<noteq> ''GET'' \<and> rq_method rq \<noteq> ''HEAD'' then False
      else if str_includes (rq_url rq) ''/rest/'' \<and> \<not> str_includes (rq_url rq) ''?select='' then False
      else True)"

section \<open>Runtime functions the worker calls\<close>

subsection \<open>btoa and atob\<close>

text \<open>
  \<^verbatim>\<open>btoa\<close> is base64 with padding. \<^verbatim>\<open>atob\<close> is the forgiving decoder of the HTML
  standard: it drops ASCII white space, drops one or two trailing \<^verbatim>\<open>=\<close> when the length
  is a multiple of four, refuses a length of 1 modulo 4 and any character outside the
  alphabet, and discards the bits left over at the end.
\<close>

definition enc6 :: "nat \<Rightarrow> char" where
  "enc6 n =
     (if n < 26 then char_of (65 + n)
      else if n < 52 then char_of (71 + n)
      else if n < 62 then char_of (n - 4)
      else if n = 62 then CHR ''+'' else CHR ''/'')"

definition dec6 :: "char \<Rightarrow> nat option" where
  "dec6 c =
     (let n = (of_char c :: nat) in
      if 65 \<le> n \<and> n \<le> 90 then Some (n - 65)
      else if 97 \<le> n \<and> n \<le> 122 then Some (n - 71)
      else if 48 \<le> n \<and> n \<le> 57 then Some (n + 4)
      else if n = 43 then Some 62
      else if n = 47 then Some 63
      else None)"

fun sextets :: "bytes \<Rightarrow> nat list" where
  "sextets (a # b # c # rest) =
     (let x = (of_char a :: nat); y = (of_char b :: nat); z = (of_char c :: nat) in
      [x div 4, (x mod 4) * 16 + y div 16, (y mod 16) * 4 + z div 64, z mod 64] @ sextets rest)"
| "sextets [a, b] =
     (let x = (of_char a :: nat); y = (of_char b :: nat) in
      [x div 4, (x mod 4) * 16 + y div 16, (y mod 16) * 4])"
| "sextets [a] = (let x = (of_char a :: nat) in [x div 4, (x mod 4) * 16])"
| "sextets [] = []"

definition btoa :: "bytes \<Rightarrow> string" where
  "btoa bs = map enc6 (sextets bs) @ replicate ((3 - length bs mod 3) mod 3) (CHR ''='')"

definition isAsciiWhitespace :: "char \<Rightarrow> bool" where
  "isAsciiWhitespace c = ((of_char c :: nat) \<in> {9, 10, 12, 13, 32})"

definition stripPadding :: "string \<Rightarrow> string" where
  "stripPadding s =
     (if length s mod 4 = 0 \<and> s \<noteq> [] \<and> last s = CHR ''='' then
        (let t = butlast s in if t \<noteq> [] \<and> last t = CHR ''='' then butlast t else t)
      else s)"

fun decodeSextets :: "nat list \<Rightarrow> bytes" where
  "decodeSextets (a # b # c # d # rest) =
     [char_of (a * 4 + b div 16), char_of ((b mod 16) * 16 + c div 4), char_of ((c mod 4) * 64 + d)]
       @ decodeSextets rest"
| "decodeSextets [a, b, c] = [char_of (a * 4 + b div 16), char_of ((b mod 16) * 16 + c div 4)]"
| "decodeSextets [a, b] = [char_of (a * 4 + b div 16)]"
| "decodeSextets [a] = []"
| "decodeSextets [] = []"

definition atob :: "string \<Rightarrow> error + bytes" where
  "atob s =
     (let d = stripPadding (filter (\<lambda>c. \<not> isAsciiWhitespace c) s) in
      if length d mod 4 = 1 then Inl InvalidCharacterError
      else (case those (map dec6 d) of
              None \<Rightarrow> Inl InvalidCharacterError
            | Some ns \<Rightarrow> Inr (decodeSextets ns)))"

subsection \<open>String.prototype.split and padStart\<close>

fun splitOn :: "char \<Rightarrow> string \<Rightarrow> string list" where
  "splitOn sep [] = [[]]"
| "splitOn sep (c # cs) =
     (if c = sep then [] # splitOn sep cs
      else (case splitOn sep cs of
              p # ps \<Rightarrow> (c # p) # ps
            | [] \<Rightarrow> [[c]]))"

definition padStart :: "nat \<Rightarrow> string \<Rightarrow> string" where
  "padStart n s = replicate (n - length s) (CHR ''0'') @ s"

subsection \<open>Dates: Date.prototype.toISOString and SQLite's CURRENT_TIMESTAMP\<close>

text \<open>
  Time is milliseconds since the epoch. \<open>civil\<close> turns a day number into year, month
  and day of the proleptic Gregorian calendar.
\<close>

definition civil :: "int \<Rightarrow> int \<times> nat \<times> nat" where
  "civil days =
     (let z = days + 719468;
          era = z div 146097;
          doe = z mod 146097;
          yoe = (doe - doe div 1460 + doe div 36524 - doe div 146096) div 365;
          doy = doe - (365 * yoe + yoe div 4 - yoe div 100);
          mp = (5 * doy + 2) div 153;
          d = doy - (153 * mp + 2) div 5 + 1;
          m = (if mp < 10 then mp + 3 else mp - 9);
          y = yoe + era * 400 + (if m \<le> 2 then 1 else 0)
      in (y, nat m, nat d))"

definition isoYear :: "int \<Rightarrow> string" where
  "isoYear y =
     (if 0 \<le> y \<and> y \<le> 9999 then padStart 4 (natToString (nat y))
      else (if y < 0 then CHR ''-'' else CHR ''+'') # padStart 6 (natToString (nat \<bar>y\<bar>)))"

definition pad2 :: "int \<Rightarrow> string" where
  "pad2 n = padStart 2 (natToString (nat n))"

text \<open>
  \<^verbatim>\<open>new Date(t).toISOString()\<close> gives \<^verbatim>\<open>YYYY-MM-DDTHH:mm:ss.sssZ\<close> and throws a
  \<^verbatim>\<open>RangeError\<close> when \<open>t\<close> is beyond the range of a Date.
\<close>

definition toISOString :: "int \<Rightarrow> error + string" where
  "toISOString t =
     (if \<bar>t\<bar> > 8640000000000000 then Inl RangeError
      else
        (let (y, m, d) = civil (t div 86400000);
             r = t mod 86400000
         in Inr (isoYear y @ ''-'' @ pad2 (int m) @ ''-'' @ pad2 (int d) @ ''T''
                 @ pad2 (r div 3600000) @ '':'' @ pad2 (r div 60000 mod 60) @ '':''
                 @ pad2 (r div 1000 mod 60) @ ''.''
                 @ padStart 3 (natToString (nat (r mod 1000))) @ ''Z'')))"

text \<open>SQLite's \<^verbatim>\<open>CURRENT_TIMESTAMP\<close> is the text \<^verbatim>\<open>YYYY-MM-DD HH:MM:SS\<close> in UTC.\<close>

definition CURRENT_TIMESTAMP :: "int \<Rightarrow> string" where
  "CURRENT_TIMESTAMP now =
     (let (y, m, d) = civil (now div 86400000);
          r = now mod 86400000
      in padStart 4 (natToString (nat y)) @ ''-'' @ pad2 (int m) @ ''-'' @ pad2 (int d) @ '' ''
         @ pad2 (r div 3600000) @ '':'' @ pad2 (r div 60000 mod 60) @ '':''
         @ pad2 (r div 1000 mod 60))"

text \<open>
  SQLite compares two text values byte by byte (\<^verbatim>\<open>memcmp\<close>, the \<^verbatim>\<open>BINARY\<close>
  collation); of two texts where one is a prefix of the other the longer is greater.
\<close>

fun textGreater :: "string \<Rightarrow> string \<Rightarrow> bool" where
  "textGreater [] ys = False"
| "textGreater (x # xs) [] = True"
| "textGreater (x # xs) (y # ys) =
     ((of_char x :: nat) > of_char y \<or> (x = y \<and> textGreater xs ys))"

section \<open>The capabilities of the runtime\<close>

text \<open>
  What the worker imports or finds in its global scope, and this repository does not
  define, is a field of the record \<open>runtime\<close>: the MD5 digest and AES-GCM of
  \<^verbatim>\<open>crypto.subtle\<close>, \<^verbatim>\<open>TextEncoder\<close> and \<^verbatim>\<open>TextDecoder\<close>, \<^verbatim>\<open>gzip\<close> and \<^verbatim>\<open>ungzip\<close>
  of pako, \<^verbatim>\<open>compress\<close> and \<^verbatim>\<open>decompress\<close> of compress-json, \<^verbatim>\<open>JSON.parse\<close> and
  \<^verbatim>\<open>JSON.stringify\<close> (on the body, of type \<open>'j\<close>, and on the header entries), the
  \<^verbatim>\<open>URL\<close> class and the global \<^verbatim>\<open>fetch\<close>. A function that can throw returns a sum.
\<close>

record 'j runtime =
  digestMD5 :: "bytes \<Rightarrow> bytes"
  textEncode :: "string \<Rightarrow> bytes"
  textDecode :: "bytes \<Rightarrow> string"
  aesGcmEncrypt :: "bytes \<Rightarrow> bytes \<Rightarrow> bytes \<Rightarrow> bytes"
  aesGcmDecrypt :: "bytes \<Rightarrow> bytes \<Rightarrow> bytes \<Rightarrow> error + bytes"
  gzip :: "string \<Rightarrow> bytes"
  ungzip :: "bytes \<Rightarrow> error + string"
  compress :: "'j \<Rightarrow> 'j"
  decompress :: "'j \<Rightarrow> error + 'j"
  jsonParse :: "string \<Rightarrow> error + 'j"
  jsonStringify :: "'j \<Rightarrow> string"
  headersToJson :: "headers \<Rightarrow> string"
  headersFromJson :: "string \<Rightarrow> error + headers"
  toUpstreamUrl :: "string \<Rightarrow> string \<Rightarrow> error + string"
  globalFetch :: "request \<Rightarrow> error + response"
  maxArguments :: nat

text \<open>
  \<open>aesGcmEncrypt P key iv data\<close> and \<open>aesGcmDecrypt P key iv data\<close> stand for
  \<^verbatim>\<open>crypto.subtle.encrypt({name: "AES-GCM", iv}, key, data)\<close> and its inverse;
  \<open>toUpstreamUrl P url supabaseUrl\<close> for the request URL with the protocol set to
  \<^verbatim>\<open>https\<close> and the host name taken from \<^verbatim>\<open>new URL(supabaseUrl)\<close>.
  \<open>maxArguments P\<close> is the greatest number of arguments the engine accepts in one call:
  a spread of more elements into a call throws a \<^verbatim>\<open>RangeError\<close>.
\<close>

subsection \<open>The D1 table\<close>

text \<open>
  The database binding is the one table the worker uses, and whether D1 answers at all.
  A statement run against a database that does not answer throws.
\<close>

record d1row =
  row_key :: string
  row_body :: bytes
  row_status :: int
  row_headers :: string
  row_expires :: string
  row_created_at :: string

record d1database =
  rows :: "d1row list"
  online :: bool

text \<open>
  \<^verbatim>\<open>SELECT ... WHERE key = ? AND expires > CURRENT_TIMESTAMP\<close>, then \<^verbatim>\<open>.first()\<close>.
  The worker binds \<^verbatim>\<open>expires\<close> as a string, and the column, declared \<^verbatim>\<open>DATETIME\<close> in the
  README's schema, keeps a text that is not a number as text; \<^verbatim>\<open>CURRENT_TIMESTAMP\<close> is a
  text too. So the filter compares two texts.
\<close>

definition d1_first :: "d1database \<Rightarrow> string \<Rightarrow> int \<Rightarrow> error + d1row option" where
  "d1_first db cacheKey now =
     (if \<not> online db then Inl D1Error
      else Inr (find (\<lambda>r. row_key r = cacheKey
                          \<and> textGreater (row_expires r) (CURRENT_TIMESTAMP now)) (rows db)))"

text \<open>\<^verbatim>\<open>INSERT OR REPLACE INTO ... (key, body, status, headers, expires)\<close>; the column
  \<^verbatim>\<open>created_at\<close> takes its default.\<close>

definition d1_insert_or_replace ::
  "d1database \<Rightarrow> string \<Rightarrow> bytes \<Rightarrow> int \<Rightarrow> string \<Rightarrow> string \<Rightarrow> int \<Rightarrow> error + d1database" where
  "d1_insert_or_replace db k b st hs ex now =
     (if \<not> online db then Inl D1Error
      else Inr (db\<lparr>rows := filter (\<lambda>r. row_key r \<noteq> k) (rows db)
                     @ [\<lparr>row_key = k, row_body = b, row_status = st, row_headers = hs,
                         row_expires = ex, row_created_at = CURRENT_TIMESTAMP now\<rparr>]\<rparr>))"

section \<open>crypto.ts\<close>

text \<open>
  \<^verbatim>\<open>importKey("raw", ...)\<close> for AES-GCM accepts key material of 128, 192 or 256 bits and
  throws a \<^verbatim>\<open>DataError\<close> otherwise; a secret that is \<^verbatim>\<open>undefined\<close> encodes to no bytes.
  The imported key is its key material.
\<close>

definition getEncryptionKey :: "'j runtime \<Rightarrow> string option \<Rightarrow> error + bytes" where
  "getEncryptionKey P secretKey =
     (let keyMaterial = textEncode P (case secretKey of None \<Rightarrow> [] | Some s \<Rightarrow> s) in
      if length keyMaterial \<in> {16, 24, 32} then Inr keyMaterial else Inl DataError)"

text \<open>
  \<^verbatim>\<open>String.fromCharCode(...new Uint8Array(buffer))\<close> passes every byte as an argument
  of its own, which the engine refuses for a buffer of more than \<open>maxArguments\<close> bytes.
\<close>

definition fromCharCodeSpread :: "'j runtime \<Rightarrow> bytes \<Rightarrow> error + string" where
  "fromCharCodeSpread P buffer =
     (if length buffer > maxArguments P then Inl RangeError else Inr buffer)"

definition arrayBufferToBase64 :: "'j runtime \<Rightarrow> bytes \<Rightarrow> error + string" where
  "arrayBufferToBase64 P buffer =
     (case fromCharCodeSpread P buffer of
        Inl e \<Rightarrow> Inl e
      | Inr binary \<Rightarrow> Inr (btoa binary))"

definition base64ToArrayBuffer :: "string \<Rightarrow> error + bytes" where
  "base64ToArrayBuffer base64 = atob base64"

text \<open>\<open>iv\<close> is what \<^verbatim>\<open>crypto.getRandomValues(new Uint8Array(12))\<close> returned.\<close>

definition encrypt :: "'j runtime \<Rightarrow> bytes \<Rightarrow> string \<Rightarrow> bytes \<Rightarrow> error + string" where
  "encrypt P iv data k =
     (let encodedData = textEncode P data;
          ciphertext = aesGcmEncrypt P k iv encodedData
      in case arrayBufferToBase64 P iv of
           Inl e \<Rightarrow> Inl e
         | Inr ivBase64 \<Rightarrow>
             (case arrayBufferToBase64 P ciphertext of
                Inl e \<Rightarrow> Inl e
              | Inr ciphertextBase64 \<Rightarrow> Inr (ivBase64 @ '':'' @ ciphertextBase64)))"

text \<open>
  \<^verbatim>\<open>const [ivBase64, ciphertextBase64] = encryptedData.split(":")\<close> takes the first two
  parts and drops any further one; a part that is not there is \<^verbatim>\<open>undefined\<close>, which
  \<^verbatim>\<open>atob\<close> reads as the text \<^verbatim>\<open>undefined\<close>.
\<close>

definition partOrUndefined :: "string list \<Rightarrow> nat \<Rightarrow> string" where
  "partOrUndefined parts i = (if i < length parts then parts ! i else ''undefined'')"

definition decrypt :: "'j runtime \<Rightarrow> string \<Rightarrow> bytes \<Rightarrow> error + string" where
  "decrypt P encryptedData k =
     (let parts = splitOn (CHR '':'') encryptedData;
          ivBase64 = partOrUndefined parts 0;
          ciphertextBase64 = partOrUndefined parts 1
      in case base64ToArrayBuffer ivBase64 of
           Inl e \<Rightarrow> Inl e
         | Inr iv \<Rightarrow>
             (case base64ToArrayBuffer ciphertextBase64 of
                Inl e \<Rightarrow> Inl e
              | Inr ciphertext \<Rightarrow>
                  (case aesGcmDecrypt P k iv ciphertext of
                     Inl e \<Rightarrow> Inl e
                   | Inr decryptedData \<Rightarrow> Inr (textDecode P decryptedData))))"

section \<open>gzip.ts\<close>

definition gzipCompress :: "'j runtime \<Rightarrow> string \<Rightarrow> error + string" where
  "gzipCompress P d =
     (let compressed = gzip P d in
      case fromCharCodeSpread P compressed of
        Inl e \<Rightarrow> Inl e
      | Inr binary \<Rightarrow> Inr (btoa binary))"

definition gzipExpand :: "'j runtime \<Rightarrow> string \<Rightarrow> error + string" where
  "gzipExpand P compressedData =
     (case atob compressedData of
        Inl e \<Rightarrow> Inl e
      | Inr compressed \<Rightarrow> ungzip P compressed)"

section \<open>index.ts: store access and the request handler\<close>

text \<open>\<^verbatim>\<open>b.toString(16).padStart(2, "0")\<close> for a byte \<open>b\<close>.\<close>

definition hexDigit :: "nat \<Rightarrow> char" where
  "hexDigit n = (if n < 10 then char_of (48 + n) else char_of (87 + n))"

definition toString16 :: "nat \<Rightarrow> string" where
  "toString16 n = (if n < 16 then [hexDigit n] else [hexDigit (n div 16 mod 16), hexDigit (n mod 16)])"

definition generateCacheKey :: "'j runtime \<Rightarrow> string \<Rightarrow> string" where
  "generateCacheKey P url =
     (let d = textEncode P url;
          hash = digestMD5 P d
      in concat (map (\<lambda>b. padStart 2 (toString16 (of_char b))) hash))"

record supacacheTableSchema =
  sc_key :: string
  sc_body :: bytes
  sc_status :: int
  sc_headers :: string
  sc_expires :: string

text \<open>
  The body of the \<^verbatim>\<open>try\<close> block of \<^verbatim>\<open>parseD1Row\<close> up to \<^verbatim>\<open>originalBody\<close>: decrypt,
  expand, parse, decompress, serialise. Each step may throw.
\<close>

definition decodeBody :: "'j runtime \<Rightarrow> bytes \<Rightarrow> bytes \<Rightarrow> error + string" where
  "decodeBody P bodyAsUint8Array encryptionKey =
     (case decrypt P (textDecode P bodyAsUint8Array) encryptionKey of
        Inl e \<Rightarrow> Inl e
      | Inr decryptedBody \<Rightarrow>
          (case gzipExpand P decryptedBody of
             Inl e \<Rightarrow> Inl e
           | Inr gzipDecompressedBody \<Rightarrow>
               (case jsonParse P gzipDecompressedBody of
                  Inl e \<Rightarrow> Inl e
                | Inr parsed \<Rightarrow>
                    (case decompress P parsed of
                       Inl e \<Rightarrow> Inl e
                     | Inr v \<Rightarrow> Inr (jsonStringify P v)))))"

text \<open>\<^verbatim>\<open>parseD1Row\<close>: the \<^verbatim>\<open>catch\<close> turns every error of the block into \<^verbatim>\<open>null\<close>.\<close>

definition parseD1Row :: "'j runtime \<Rightarrow> d1row \<Rightarrow> bytes \<Rightarrow> supacacheTableSchema option" where
  "parseD1Row P row encryptionKey =
     (case decodeBody P (row_body row) encryptionKey of
        Inl e \<Rightarrow> None
      | Inr originalBody \<Rightarrow>
          Some \<lparr>sc_key = row_key row, sc_body = textEncode P originalBody,
                sc_status = row_status row, sc_headers = row_headers row,
                sc_expires = row_expires row\<rparr>)"

text \<open>
  \<^verbatim>\<open>new Response(body, {status, headers})\<close> with a body that is not \<^verbatim>\<open>null\<close>: a
  \<^verbatim>\<open>RangeError\<close> for a status outside 200 to 599, a \<^verbatim>\<open>TypeError\<close> for a status that
  admits no body.
\<close>

definition newResponse :: "bytes \<Rightarrow> int \<Rightarrow> headers \<Rightarrow> error + response" where
  "newResponse b st hs =
     (if st < 200 \<or> st > 599 then Inl RangeError
      else if st \<in> {204, 205, 304} then Inl TypeError
      else Inr \<lparr>rs_status = st, rs_headers = hs, rs_body = b\<rparr>)"

text \<open>\<^verbatim>\<open>new Response(text, {status})\<close> for a text body.\<close>

definition textResponse :: "string \<Rightarrow> int \<Rightarrow> response" where
  "textResponse t st =
     \<lparr>rs_status = st, rs_headers = [(''content-type'', ''text/plain;charset=UTF-8'')], rs_body = t\<rparr>"

definition getCachedResponse ::
  "'j runtime \<Rightarrow> string \<Rightarrow> d1database \<Rightarrow> bytes \<Rightarrow> int \<Rightarrow> error + response option" where
  "getCachedResponse P cacheKey db encryptionKey now =
     (case d1_first db cacheKey now of
        Inl e \<Rightarrow> Inl e
      | Inr None \<Rightarrow> Inr None
      | Inr (Some result) \<Rightarrow>
          (case parseD1Row P result encryptionKey of
             None \<Rightarrow> Inr None
           | Some parsed \<Rightarrow>
               (case headersFromJson P (sc_headers parsed) of
                  Inl e \<Rightarrow> Inl e
                | Inr hs \<Rightarrow>
                    (case newResponse (sc_body parsed) (row_status result) hs of
                       Inl e \<Rightarrow> Inl e
                     | Inr r \<Rightarrow> Inr (Some r)))))"

text \<open>What the worker does to the outside, in the order it does it.\<close>

datatype event = UpstreamFetch request | StoreRead string | StoreWrite string string

fun isStoreEvent :: "event \<Rightarrow> bool" where
  "isStoreEvent (UpstreamFetch r) = False"
| "isStoreEvent (StoreRead k) = True"
| "isStoreEvent (StoreWrite k ex) = True"

fun isStoreWrite :: "event \<Rightarrow> bool" where
  "isStoreWrite (StoreWrite k ex) = True"
| "isStoreWrite e = False"

fun isUpstreamFetch :: "event \<Rightarrow> bool" where
  "isUpstreamFetch (UpstreamFetch r) = True"
| "isUpstreamFetch e = False"

definition fetchFromSupabase ::
  "'j runtime \<Rightarrow> request \<Rightarrow> string \<Rightarrow> (error + response) \<times> event list" where
  "fetchFromSupabase P request supabaseUrl =
     (case toUpstreamUrl P (rq_url request) supabaseUrl of
        Inl e \<Rightarrow> (Inl e, [])
      | Inr url \<Rightarrow>
          (let hs = headers_delete (headers_delete (rq_headers request) ''x-cache-service-key'') ''x-ttl'';
               init = \<lparr>rq_method = rq_method request, rq_url = url, rq_headers = hs,
                       rq_body = rq_body request\<rparr>
           in (globalFetch P init, [UpstreamFetch init])))"

text \<open>
  \<^verbatim>\<open>cacheResponse\<close>: the expiry is the ISO text of \<^verbatim>\<open>Date.now() + ttl * 1000\<close>. An
  error before the statement runs leaves the store untouched.
\<close>

definition cacheResponse ::
  "'j runtime \<Rightarrow> string \<Rightarrow> string \<Rightarrow> response \<Rightarrow> int \<Rightarrow> d1database \<Rightarrow> bytes \<Rightarrow> int \<Rightarrow> bytes
     \<Rightarrow> (error + d1database) \<times> event list" where
  "cacheResponse P cacheKey b rs ttl db encryptionKey now iv =
     (case toISOString (now + ttl * 1000) of
        Inl e \<Rightarrow> (Inl e, [])
      | Inr expires \<Rightarrow>
          (let hs = headersToJson P (rs_headers rs) in
           case jsonParse P b of
             Inl e \<Rightarrow> (Inl e, [])
           | Inr parsed \<Rightarrow>
               (let jsonCompressedBody = jsonStringify P (compress P parsed) in
                case gzipCompress P jsonCompressedBody of
                  Inl e \<Rightarrow> (Inl e, [])
                | Inr gzipCompressedBody \<Rightarrow>
                    (case encrypt P iv gzipCompressedBody encryptionKey of
                       Inl e \<Rightarrow> (Inl e, [])
                     | Inr encryptedBody \<Rightarrow>
                         (let bodyAsBlob = textEncode P encryptedBody in
                          (d1_insert_or_replace db cacheKey bodyAsBlob (rs_status rs) hs expires
                             now,
                           [StoreWrite cacheKey expires]))))))"

record env =
  SERVICE_AUTH_KEY :: "string option"
  D1_CACHESTORE_ENCRYPTION_KEY :: "string option"
  SUPABASE_URL :: string

text \<open>
  The handler \<^verbatim>\<open>fetch(request, env, ctx)\<close>. Beside the request and the environment it
  reads the clock (\<open>now\<close>), draws a nonce (\<open>iv\<close>) and uses the database \<open>db\<close>; it
  answers with a response or a thrown error, the database afterwards and the events.
  A \<^verbatim>\<open>catch\<close> that finds no upstream response answers 500.
\<close>

definition fetch ::
  "'j runtime \<Rightarrow> env \<Rightarrow> int \<Rightarrow> bytes \<Rightarrow> d1database \<Rightarrow> request
     \<Rightarrow> (error + response) \<times> d1database \<times> event list" where
  "fetch P env now iv db request =
     (let cacheServiceKey = headers_get (rq_headers request) ''x-cache-service-key'' in
      if \<not> isValidServiceKey cacheServiceKey (SERVICE_AUTH_KEY env)
      then (Inr (textResponse ''Unauthorized'' 401), db, [])
      else
        (case getEncryptionKey P (D1_CACHESTORE_ENCRYPTION_KEY env) of
           Inl e \<Rightarrow> (Inl e, db, [])
         | Inr encryptionKey \<Rightarrow>
             (let cacheKey = generateCacheKey P (rq_url request);
                  ttl = parseTTL (rq_headers request);
                  supabaseUrl = SUPABASE_URL env
              in if \<not> canCacheEndpoint (rq_url request) then
                   (case fetchFromSupabase P request supabaseUrl of
                      (supabaseResponse, evs) \<Rightarrow> (supabaseResponse, db, evs))
                 else
                   (case getCachedResponse P cacheKey db encryptionKey now of
                      Inl e \<Rightarrow>
                        (Inr (textResponse ''Internal Server Error'' 500), db, [StoreRead cacheKey])
                    | Inr (Some cachedResponse) \<Rightarrow>
                        (Inr cachedResponse, db, [StoreRead cacheKey])
                    | Inr None \<Rightarrow>
                        (case fetchFromSupabase P request supabaseUrl of
                           (Inl e, evs) \<Rightarrow>
                             (Inr (textResponse ''Internal Server Error'' 500), db,
                              StoreRead cacheKey # evs)
                         | (Inr supabaseResponse, evs) \<Rightarrow>
                             if shouldCacheResponse request supabaseResponse then
                               (case cacheResponse P cacheKey
                                       (textDecode P (rs_body supabaseResponse))
                                       supabaseResponse ttl db encryptionKey now iv of
                                  (Inl e, wevs) \<Rightarrow>
                                    (Inr supabaseResponse, db, StoreRead cacheKey # evs @ wevs)
                                | (Inr db', wevs) \<Rightarrow>
                                    (Inr supabaseResponse, db', StoreRead cacheKey # evs @ wevs))
                             else (Inr supabaseResponse, db, StoreRead cacheKey # evs))))))"

section \<open>The cache key as the claim words it\<close>

text \<open>
  The hexadecimal text of a byte string: two digits per byte, the high one first, in
  lower case. It is what \<open>generateCacheKey\<close> is compared with.
\<close>

definition hexDigits :: string where
  "hexDigits = ''0123456789abcdef''"

definition hexOfBytes :: "bytes \<Rightarrow> string" where
  "hexOfBytes bs =
     concat (map (\<lambda>b. [hexDigits ! ((of_char b :: nat) div 16),
                        hexDigits ! ((of_char b :: nat) mod 16)]) bs)"

section \<open>A small runtime to run the model on\<close>

text \<open>
  \<open>exampleRuntime\<close> gives every capability a simple executable stand-in, so that the
  handler can be run on concrete requests: text is ASCII and encodes to itself, the
  digest of a text is the text (so no two texts collide), a sealed message is the data
  followed by a one-byte sum over key, nonce and data, the byte compressor prefixes a
  two-byte magic number, the structural compressor is the identity on texts that are
  not empty, header entries are written as \<^verbatim>\<open>name=value&\<close>, the upstream host replaces
  the host of the URL, upstream answers every request with \<^verbatim>\<open>200 [1,2,3]\<close>, and a
  call takes 65536 arguments at most.
\<close>

definition checksum :: "bytes \<Rightarrow> char" where
  "checksum bs = char_of (sum_list (map (of_char :: char \<Rightarrow> nat) bs))"

definition exSeal :: "bytes \<Rightarrow> bytes \<Rightarrow> bytes \<Rightarrow> bytes" where
  "exSeal k iv d = d @ [checksum (k @ iv @ d)]"

definition exOpen :: "bytes \<Rightarrow> bytes \<Rightarrow> bytes \<Rightarrow> error + bytes" where
  "exOpen k iv c =
     (if c \<noteq> [] \<and> last c = checksum (k @ iv @ butlast c) then Inr (butlast c)
      else Inl OperationError)"

definition exUngzip :: "bytes \<Rightarrow> error + string" where
  "exUngzip b = (if startsWith b ''GZ'' then Inr (drop 2 b) else Inl GzipError)"

definition exHeadersFromJson :: "string \<Rightarrow> error + headers" where
  "exHeadersFromJson s =
     (let entries = butlast (splitOn (CHR ''&'') s) in
      if list_all (\<lambda>e. length (splitOn (CHR ''='') e) = 2) entries
      then Inr (map (\<lambda>e. (hd (splitOn (CHR ''='') e), last (splitOn (CHR ''='') e))) entries)
      else Inl SyntaxError)"

definition exPath :: "string \<Rightarrow> string" where
  "exPath url =
     dropWhile (\<lambda>c. c \<noteq> CHR ''/'') (drop 2 (dropWhile (\<lambda>c. c \<noteq> CHR ''/'') url))"

definition exampleResponse :: response where
  "exampleResponse =
     \<lparr>rs_status = 200, rs_headers = [(''content-type'', ''application/json'')],
      rs_body = ''[1,2,3]''\<rparr>"

definition exampleRuntime :: "string runtime" where
  "exampleRuntime =
     \<lparr>digestMD5 = (\<lambda>d. d),
      textEncode = (\<lambda>s. s),
      textDecode = (\<lambda>b. b),
      aesGcmEncrypt = exSeal,
      aesGcmDecrypt = exOpen,
      gzip = (\<lambda>s. ''GZ'' @ s),
      ungzip = exUngzip,
      compress = (\<lambda>j. j),
      decompress = (\<lambda>j. Inr j),
      jsonParse = (\<lambda>s. if s = [] then Inl SyntaxError else Inr s),
      jsonStringify = (\<lambda>j. j),
      headersToJson = (\<lambda>hs. concat (map (\<lambda>(k, v). k @ ''='' @ v @ ''&'') hs)),
      headersFromJson = exHeadersFromJson,
      toUpstreamUrl = (\<lambda>url supabaseUrl.
         if supabaseUrl = [] then Inl TypeError else Inr (supabaseUrl @ exPath url)),
      globalFetch = (\<lambda>init. Inr exampleResponse),
      maxArguments = 65536\<rparr>"

definition exampleEnv :: env where
  "exampleEnv =
     \<lparr>SERVICE_AUTH_KEY = Some ''my-secret-key'',
      D1_CACHESTORE_ENCRYPTION_KEY = Some ''0123456789abcdef'',
      SUPABASE_URL = ''https://project.supabase.co''\<rparr>"

definition exampleKey :: bytes where
  "exampleKey = ''0123456789abcdef''"

definition exampleIv :: bytes where
  "exampleIv = ''nonce-012345''"

definition emptyDb :: d1database where
  "emptyDb = \<lparr>rows = [], online = True\<rparr>"

definition exampleRequest :: "string \<Rightarrow> string \<Rightarrow> headers \<Rightarrow> request" where
  "exampleRequest m u hs =
     \<lparr>rq_method = m, rq_url = u,
      rq_headers = (''x-cache-service-key'', ''my-secret-key'') # hs, rq_body = None\<rparr>"

definition exampleUrl :: string where
  "exampleUrl = ''https://cache.example.workers.dev/rest/v1/countries?select=*''"

definition exampleGet :: request where
  "exampleGet = exampleRequest ''GET'' exampleUrl [(''x-ttl'', ''30'')]"

definition exampleHead :: request where
  "exampleHead = exampleRequest ''HEAD'' exampleUrl []"

definition exampleBypassUrl :: string where
  "exampleBypassUrl =
     ''https://cache.example.workers.dev/rest/v1/countries?select=*&next=/realtime/x''"

definition examplePost :: request where
  "examplePost = exampleRequest ''POST'' exampleUrl [(''x-ttl'', ''30'')]"

definition exampleQueryBypass :: request where
  "exampleQueryBypass = exampleRequest ''GET'' exampleBypassUrl []"

text \<open>
  What the example run stores for \<open>exampleGet\<close> at the time 1704067200000, that is
  2024-01-01 00:00:00 UTC: the sealed bytes, the envelope and the row.
\<close>

definition exampleSealed :: bytes where
  "exampleSealed = ''R1pbMSwyLDNd'' @ [CHR 0xF8]"

definition exampleEnvelope :: string where
  "exampleEnvelope = ''bm9uY2UtMDEyMzQ1:UjFwYk1Td3lMRE5k+A==''"

definition exampleRow :: "string \<Rightarrow> d1row" where
  "exampleRow k =
     \<lparr>row_key = k, row_body = exampleEnvelope, row_status = 200,
      row_headers = ''content-type=application/json&'',
      row_expires = ''2024-01-01T00:00:30.000Z'', row_created_at = ''2024-01-01 00:00:00''\<rparr>"

definition exampleDb :: "string \<Rightarrow> d1database" where
  "exampleDb k = \<lparr>rows = [exampleRow k], online = True\<rparr>"

definition otherKey :: bytes where
  "otherKey = ''another-16b-key!''"

definition exampleRealtime :: request where
  "exampleRealtime =
     exampleRequest ''GET'' ''https://cache.example.workers.dev/realtime/v1/websocket'' []"

definition otherEnv :: env where
  "otherEnv = exampleEnv\<lparr>D1_CACHESTORE_ENCRYPTION_KEY := Some ''another-16b-key!''\<rparr>"

definition exampleCached :: response where
  "exampleCached =
     \<lparr>rs_status = 200, rs_headers = [(''content-type'', ''application/json'')],
      rs_body = ''[1,2,3]''\<rparr>"

section \<open>Properties\<close>

subsection \<open>The TTL of a request\<close>

text \<open>
  Numbers on examples: an integer past \<open>2^53\<close> is rounded to a double, a double of 22
  digits prints in exponent form, and \<^verbatim>\<open>parseInt\<close> of that print stops at the point or at
  the \<^verbatim>\<open>e\<close>.
\<close>

lemma parseInt_rounds_to_double:
  "parseInt ''9007199254740993'' = Some 9007199254740992"
  "parseInt ''123456789012345678901'' = Some 123456789012345683968"
  by code_simp+

lemma numToString_examples:
  "numToString (Some 123456789012345683968) = ''123456789012345680000''"
  "numToString (Some 1000000000000000000000) = ''1e+21''"
  "numToString (Some 1234567890123456774144) = ''1.2345678901234568e+21''"
  by code_simp+

lemma parseTTL_of_22_digits:
  "parseTTL [(''x-ttl'', ''1000000000000000000000'')] = 1"
  "parseTTL [(''x-ttl'', ''123456789012345678901'')] = 123456789012345683968"
  by code_simp+

lemma parseInt_backslash: "parseInt (CHR 0x5C # xs) = None"
  by (simp add: parseInt_def isWhiteSpace_def isDigit_def)

lemma matchMaxAge_group: "matchMaxAge s = Some g \<Longrightarrow> \<exists>xs. g = CHR 0x5C # xs"
  by (induction s) (auto simp: Let_def split: if_splits)

lemma parseInt_default: "parseInt (numToString (Some 900)) = Some 900"
  by code_simp

lemma parseInt_NaN: "parseInt (numToString None) = None"
  by code_simp

text \<open>
  Claim C2 says that without \<^verbatim>\<open>X-TTL\<close> a directive \<^verbatim>\<open>max-age=N\<close> of \<^verbatim>\<open>Cache-Control\<close>
  gives the TTL \<open>N\<close>. The code does not do that: the group of the pattern always starts
  with a backslash, which \<^verbatim>\<open>parseInt\<close> reads as \<^verbatim>\<open>NaN\<close>, so that without a usable
  \<^verbatim>\<open>X-TTL\<close> the TTL is 900 whatever \<^verbatim>\<open>Cache-Control\<close> says.
\<close>

theorem parseTTL_without_x_ttl_is_default:
  assumes "truthy (headers_get hs ''x-ttl'') = None"
  shows "parseTTL hs = 900"
proof -
  have g: "\<And>cc g. matchMaxAge cc = Some g \<Longrightarrow> parseInt g = None"
    by (auto dest!: matchMaxAge_group simp: parseInt_backslash)
  show ?thesis
    using assms
    by (auto simp: parseTTL_def Let_def parseInt_default parseInt_NaN defaultTTL_def g
             split: option.splits)
qed

theorem parseTTL_max_age_60_is_900:
  "truthy (headers_get [(''cache-control'', ''max-age=60'')] ''x-ttl'') = None
   \<and> parseTTL [(''cache-control'', ''max-age=60'')] = 900"
proof -
  have h: "truthy (headers_get [(''cache-control'', ''max-age=60'')] ''x-ttl'') = None"
    by code_simp
  show ?thesis
    using h parseTTL_without_x_ttl_is_default [OF h] by simp
qed

subsection \<open>The service key\<close>

text \<open>
  Claim C7: a request whose \<^verbatim>\<open>X-Cache-Service-Key\<close> header is missing or differs from
  the provisioned secret is answered 401, and the handler does nothing else: no event
  (no upstream fetch, no store read, no store write) and the database as it was.
\<close>

theorem unauthorized_request_touches_nothing:
  assumes "SERVICE_AUTH_KEY env = Some secret"
    and "headers_get (rq_headers request) ''x-cache-service-key'' \<noteq> Some secret"
  shows "fetch P env now iv db request = (Inr (textResponse ''Unauthorized'' 401), db, [])
         \<and> rs_status (textResponse ''Unauthorized'' 401) = 401"
  using assms
  by (auto simp: fetch_def isValidServiceKey_def textResponse_def split: option.splits)

theorem unauthorized_request_witness:
  "SERVICE_AUTH_KEY exampleEnv = Some ''my-secret-key''
   \<and> headers_get [(''X-Cache-Service-Key'', ''wrong-key'')] ''x-cache-service-key''
       \<noteq> Some ''my-secret-key''
   \<and> headers_get [] ''x-cache-service-key'' \<noteq> Some ''my-secret-key''
   \<and> fetch exampleRuntime exampleEnv 1704067200000 exampleIv emptyDb
        \<lparr>rq_method = ''GET'', rq_url = ''https://cache.example.workers.dev/rest/v1/countries?select=*'',
         rq_headers = [(''X-Cache-Service-Key'', ''wrong-key'')], rq_body = None\<rparr>
       = (Inr (textResponse ''Unauthorized'' 401), emptyDb, [])
   \<and> fetch exampleRuntime exampleEnv 1704067200000 exampleIv emptyDb
        \<lparr>rq_method = ''GET'', rq_url = ''https://cache.example.workers.dev/rest/v1/countries?select=*'',
         rq_headers = [], rq_body = None\<rparr>
       = (Inr (textResponse ''Unauthorized'' 401), emptyDb, [])"
proof -
  have k: "SERVICE_AUTH_KEY exampleEnv = Some ''my-secret-key''"
    by (simp add: exampleEnv_def)
  have h1: "headers_get [(''X-Cache-Service-Key'', ''wrong-key'')] ''x-cache-service-key''
            \<noteq> Some ''my-secret-key''"
    by code_simp
  have h2: "headers_get [] ''x-cache-service-key'' \<noteq> Some ''my-secret-key''"
    by (simp add: headers_get_def)
  show ?thesis
    using k h1 h2
      unauthorized_request_touches_nothing [of exampleEnv "''my-secret-key''"
        "\<lparr>rq_method = ''GET'', rq_url = ''https://cache.example.workers.dev/rest/v1/countries?select=*'',
          rq_headers = [(''X-Cache-Service-Key'', ''wrong-key'')], rq_body = None\<rparr>"
        exampleRuntime 1704067200000 exampleIv emptyDb]
      unauthorized_request_touches_nothing [of exampleEnv "''my-secret-key''"
        "\<lparr>rq_method = ''GET'', rq_url = ''https://cache.example.workers.dev/rest/v1/countries?select=*'',
          rq_headers = [], rq_body = None\<rparr>"
        exampleRuntime 1704067200000 exampleIv emptyDb]
    by simp
qed

subsection \<open>btoa and atob are inverse on bytes\<close>

lemma of_char_lt_256: "(of_char c :: nat) < 256"
proof -
  have "(of_char c :: nat) mod 256 = of_char c" by simp
  then show ?thesis by (metis mod_less_divisor zero_less_numeral)
qed

lemma dec6_enc6: "n < 64 \<Longrightarrow> dec6 (enc6 n) = Some n"
  by (auto simp: dec6_def enc6_def Let_def)

lemma of_char_enc6: "43 \<le> (of_char (enc6 n) :: nat) \<and> (of_char (enc6 n) :: nat) \<noteq> 61 \<and> (of_char (enc6 n) :: nat) \<noteq> 58"
  by (auto simp: enc6_def)

lemma enc6_not_special:
  "\<not> isAsciiWhitespace (enc6 n)" "enc6 n \<noteq> CHR ''=''" "enc6 n \<noteq> CHR '':''"
  using of_char_enc6 [of n] by (auto simp: isAsciiWhitespace_def)

lemma sextet_bounds:
  fixes x y :: nat
  assumes "x < 256" and "y < 256"
  shows "x div 4 < 64" "x mod 4 * 16 + y div 16 < 64" "x mod 16 * 4 + y div 64 < 64"
    "x mod 4 * 16 < 64" "x mod 16 * 4 < 64" "x mod 64 < 64"
proof -
  have a: "x mod 4 < 4" "x mod 16 < 16" "x mod 64 < 64" by simp_all
  have b: "x div 4 < 64" "y div 16 < 16" "y div 64 < 4" using assms by simp_all
  show "x div 4 < 64" using b by simp
  show "x mod 4 * 16 + y div 16 < 64" using a b by linarith
  show "x mod 16 * 4 + y div 64 < 64" using a b by linarith
  show "x mod 4 * 16 < 64" using a by linarith
  show "x mod 16 * 4 < 64" using a by linarith
  show "x mod 64 < 64" by simp
qed

lemma sextet_join_1: fixes a b :: nat assumes "a < 256" "b < 256"
  shows "a div 4 * 4 + (a mod 4 * 16 + b div 16) div 16 = a"
proof -
  have "b div 16 < 16" using assms by simp
  then have "(a mod 4 * 16 + b div 16) div 16 = a mod 4" by simp
  then show ?thesis by simp
qed

lemma sextet_join_2: fixes a b c :: nat assumes "b < 256" "c < 256"
  shows "(a mod 4 * 16 + b div 16) mod 16 * 16 + (b mod 16 * 4 + c div 64) div 4 = b"
proof -
  have l: "b div 16 < 16" "c div 64 < 4" using assms by simp_all
  have "(a mod 4 * 16 + b div 16) mod 16 = b div 16" using l by simp
  moreover have "(b mod 16 * 4 + c div 64) div 4 = b mod 16" using l by simp
  ultimately show ?thesis by simp
qed

lemma sextet_join_3: fixes b c :: nat assumes "c < 256"
  shows "(b mod 16 * 4 + c div 64) mod 4 * 64 + c mod 64 = c"
proof -
  have l: "c div 64 < 4" using assms by simp
  have "(b mod 16 * 4 + c div 64) mod 4 = c div 64" using l by simp
  then show ?thesis by simp
qed

lemma sextet_join_2_last: fixes a b :: nat assumes "b < 256"
  shows "(a mod 4 * 16 + b div 16) mod 16 * 16 + (b mod 16 * 4) div 4 = b"
proof -
  have l: "b div 16 < 16" using assms by simp
  have "(a mod 4 * 16 + b div 16) mod 16 = b div 16" using l by simp
  then show ?thesis by simp
qed

lemma sextet_join_1_last: fixes a :: nat
  shows "a div 4 * 4 + (a mod 4 * 16) div 16 = a"
  by simp

lemma sextets_lt: "n \<in> set (sextets bs) \<Longrightarrow> n < 64"
proof (induction bs arbitrary: n rule: sextets.induct)
  case (1 a b c rest)
  note l = of_char_lt_256 [of a] of_char_lt_256 [of b] of_char_lt_256 [of c]
  from "1.prems" have "n = of_char a div 4 \<or> n = of_char a mod 4 * 16 + of_char b div 16
      \<or> n = of_char b mod 16 * 4 + of_char c div 64 \<or> n = of_char c mod 64
      \<or> n \<in> set (sextets rest)"
    by (simp add: Let_def)
  then show ?case
    using sextet_bounds [OF l(1) l(2)] sextet_bounds [OF l(2) l(3)] sextet_bounds [OF l(3) l(3)]
      "1.IH" [OF refl refl refl]
    by blast
next
  case (2 a b)
  note l = of_char_lt_256 [of a] of_char_lt_256 [of b]
  from "2.prems" have "n = of_char a div 4 \<or> n = of_char a mod 4 * 16 + of_char b div 16
      \<or> n = of_char b mod 16 * 4"
    by (simp add: Let_def)
  then show ?case
    using sextet_bounds [OF l(1) l(2)] sextet_bounds [OF l(2) l(2)] by blast
next
  case (3 a)
  note l = of_char_lt_256 [of a]
  from "3.prems" have "n = of_char a div 4 \<or> n = of_char a mod 4 * 16"
    by (simp add: Let_def)
  then show ?case
    using sextet_bounds [OF l l] by blast
next
  case 4
  then show ?case by simp
qed

lemma those_dec6_enc6:
  "(\<And>n. n \<in> set ns \<Longrightarrow> n < 64) \<Longrightarrow> those (map dec6 (map enc6 ns)) = Some ns"
  by (induction ns) (auto simp: dec6_enc6)

lemma decodeSextets_sextets: "decodeSextets (sextets bs) = bs"
proof (induction bs rule: sextets.induct)
  case (1 a b c rest)
  note l = of_char_lt_256 [of a] of_char_lt_256 [of b] of_char_lt_256 [of c]
  have "decodeSextets (sextets (a # b # c # rest)) = [a, b, c] @ decodeSextets (sextets rest)"
    apply (simp only: sextets.simps Let_def append_Cons append_Nil decodeSextets.simps)
    apply (simp only: sextet_join_1 [OF l(1) l(2)] sextet_join_2 [OF l(2) l(3)] sextet_join_3 [OF l(3)] char_of_char)
    done
  then show ?case using 1 [OF refl refl refl] by simp
next
  case (2 a b)
  note l = of_char_lt_256 [of a] of_char_lt_256 [of b]
  have "decodeSextets (sextets [a, b]) = [a, b]"
    apply (simp only: sextets.simps Let_def decodeSextets.simps)
    apply (simp only: sextet_join_1 [OF l(1) l(2)] sextet_join_2_last [OF l(2)] char_of_char)
    done
  then show ?case .
next
  case (3 a)
  have "decodeSextets (sextets [a]) = [a]"
    apply (simp only: sextets.simps Let_def decodeSextets.simps)
    apply (simp only: sextet_join_1_last char_of_char)
    done
  then show ?case .
next
  case 4
  then show ?case by simp
qed

lemma length_sextets:
  "length (sextets bs) = 4 * (length bs div 3) + (if length bs mod 3 = 0 then 0 else length bs mod 3 + 1)"
proof (induction bs rule: sextets.induct)
  case (1 a b c rest)
  have d: "(3 + length rest) div 3 = Suc (length rest div 3)" by arith
  have m: "(3 + length rest) mod 3 = length rest mod 3" by arith
  show ?case using 1 by (simp add: Let_def d m)
qed (simp_all add: Let_def)

lemma mod3_cases: "(n::nat) mod 3 = 0 \<or> n mod 3 = 1 \<or> n mod 3 = 2"
  by arith

lemma btoa_cases:
  "(length bs mod 3 = 0 \<and> btoa bs = map enc6 (sextets bs) \<and> length (sextets bs) mod 4 = 0)
   \<or> (length bs mod 3 = 1 \<and> btoa bs = map enc6 (sextets bs) @ ''==''
        \<and> length (sextets bs) mod 4 = 2)
   \<or> (length bs mod 3 = 2 \<and> btoa bs = map enc6 (sextets bs) @ ''=''
        \<and> length (sextets bs) mod 4 = 3)"
  using mod3_cases [of "length bs"]
  by (auto simp: btoa_def length_sextets numeral_2_eq_2)

lemma last_core: "xs \<noteq> [] \<Longrightarrow> last (map enc6 xs) \<noteq> CHR ''=''"
  by (simp add: last_map enc6_not_special)

lemma stripPadding_btoa: "stripPadding (btoa bs) = map enc6 (sextets bs)"
proof -
  consider (a) "btoa bs = map enc6 (sextets bs)" "length (sextets bs) mod 4 = 0"
    | (b) "btoa bs = map enc6 (sextets bs) @ ''==''" "length (sextets bs) mod 4 = 2"
    | (c) "btoa bs = map enc6 (sextets bs) @ ''=''" "length (sextets bs) mod 4 = 3"
    using btoa_cases [of bs] by auto
  then show ?thesis
  proof cases
    case a
    then show ?thesis
      using last_core [of "sextets bs"] by (auto simp: stripPadding_def)
  next
    case b
    have "length (map enc6 (sextets bs) @ ''=='') mod 4 = 0"
      using b(2) by (simp add: mod_Suc)
    then show ?thesis
      using b(1) by (simp add: stripPadding_def butlast_append)
  next
    case c
    have ne: "sextets bs \<noteq> []" using c(2) by auto
    have "length (map enc6 (sextets bs) @ ''='') mod 4 = 0"
      using c(2) by (simp add: mod_Suc)
    then show ?thesis
      using c(1) ne last_core [OF ne] by (simp add: stripPadding_def butlast_append Let_def)
  qed
qed

lemma filter_ws_btoa: "filter (\<lambda>c. \<not> isAsciiWhitespace c) (btoa bs) = btoa bs"
proof -
  have e: "\<not> isAsciiWhitespace (CHR ''='')"
    by (simp add: isAsciiWhitespace_def)
  have "\<And>c. c \<in> set (btoa bs) \<Longrightarrow> \<not> isAsciiWhitespace c"
    by (auto simp: btoa_def enc6_not_special e)
  then show ?thesis by (simp add: filter_id_conv)
qed

lemma atob_btoa: "atob (btoa bs) = Inr bs"
proof -
  have m: "length (sextets bs) mod 4 \<noteq> 1"
    using btoa_cases [of bs] by auto
  have t: "those (map dec6 (map enc6 (sextets bs))) = Some (sextets bs)"
    by (rule those_dec6_enc6) (rule sextets_lt)
  show ?thesis
    using m t by (simp add: atob_def filter_ws_btoa stripPadding_btoa decodeSextets_sextets)
qed

lemma colon_notin_btoa: "CHR '':'' \<notin> set (btoa bs)"
proof
  assume "CHR '':'' \<in> set (btoa bs)"
  then obtain n where "enc6 n = CHR '':''"
    by (auto simp: btoa_def)
  with enc6_not_special(3) [of n] show False by simp
qed

lemma splitOn_nonempty: "splitOn sep s \<noteq> []"
  by (induction s) (auto split: list.splits)

lemma splitOn_no_sep: "sep \<notin> set s \<Longrightarrow> splitOn sep s = [s]"
  by (induction s) auto

lemma splitOn_append_sep: "splitOn sep (s @ sep # t) = splitOn sep s @ splitOn sep t"
  using splitOn_nonempty [of sep]
  by (induction s) (auto split: list.splits)

subsection \<open>The envelope of crypto.ts\<close>

lemma split_envelope:
  "splitOn (CHR '':'') (btoa a @ CHR '':'' # btoa b) = [btoa a, btoa b]"
  using splitOn_append_sep [of "CHR '':''" "btoa a" "btoa b"]
  by (simp add: splitOn_no_sep colon_notin_btoa)

lemma arrayBufferToBase64_cases:
  "arrayBufferToBase64 P buffer
     = (if length buffer > maxArguments P then Inl RangeError else Inr (btoa buffer))"
  by (simp add: arrayBufferToBase64_def fromCharCodeSpread_def)

lemma gzipCompress_cases:
  "gzipCompress P d
     = (if length (gzip P d) > maxArguments P then Inl RangeError else Inr (btoa (gzip P d)))"
  by (simp add: gzipCompress_def fromCharCodeSpread_def)

lemma encrypt_cases:
  "encrypt P iv b k
     = (if length iv > maxArguments P
           \<or> length (aesGcmEncrypt P k iv (textEncode P b)) > maxArguments P
        then Inl RangeError
        else Inr (btoa iv @ '':'' @ btoa (aesGcmEncrypt P k iv (textEncode P b))))"
  by (simp add: encrypt_def Let_def arrayBufferToBase64_cases)

lemma decrypt_encrypt:
  assumes "encrypt P iv b k = Inr sealed"
  shows "decrypt P sealed k'
     = (case aesGcmDecrypt P k' iv (aesGcmEncrypt P k iv (textEncode P b)) of
          Inl e \<Rightarrow> Inl e
        | Inr d \<Rightarrow> Inr (textDecode P d))"
proof -
  from assms have s: "sealed = btoa iv @ CHR '':'' # btoa (aesGcmEncrypt P k iv (textEncode P b))"
    by (simp add: encrypt_cases split: if_splits)
  show ?thesis
    unfolding s
    by (simp add: decrypt_def Let_def base64ToArrayBuffer_def split_envelope partOrUndefined_def
          atob_btoa)
qed




subsection \<open>The codec chain of the stored body\<close>

text \<open>
  \<^verbatim>\<open>cacheResponse\<close> encodes a parsed body \<open>x\<close> by structural compression,
  serialisation, gzip, base64, encryption and text encoding; \<^verbatim>\<open>parseD1Row\<close> undoes
  these steps in the opposite order. The base64 and envelope layers, which are the
  worker's own, lose nothing; where the libraries and the runtime invert their own
  steps on \<open>x\<close>, the stored body decodes to the serialisation of \<open>x\<close>.
\<close>

lemma stored_body_decodes_when_libraries_round_trip:
  fixes x :: 'j
  assumes "gzipCompress P (jsonStringify P (compress P x)) = Inr z"
    and "encrypt P iv z k = Inr sealed"
    and "decompress P (compress P x) = Inr x"
    and "jsonParse P (jsonStringify P (compress P x)) = Inr (compress P x)"
    and "ungzip P (gzip P (jsonStringify P (compress P x))) = Inr (jsonStringify P (compress P x))"
    and "aesGcmDecrypt P k iv (aesGcmEncrypt P k iv (textEncode P z)) = Inr (textEncode P z)"
    and "textDecode P (textEncode P z) = z"
    and "textDecode P (textEncode P sealed) = sealed"
  shows "decodeBody P (textEncode P sealed) k = Inr (jsonStringify P x)"
proof -
  from assms(1) have z: "z = btoa (gzip P (jsonStringify P (compress P x)))"
    by (simp add: gzipCompress_cases split: if_splits)
  have d: "decrypt P sealed k = Inr z"
    using assms(6,7) by (simp add: decrypt_encrypt [OF assms(2)])
  have g: "gzipExpand P z = Inr (jsonStringify P (compress P x))"
    using assms(5) by (simp add: z gzipExpand_def atob_btoa)
  show ?thesis
    using assms(3,4,8) by (simp add: decodeBody_def d g)
qed

subsection \<open>The example runtime, evaluated\<close>

lemma ex_fields:
  "textEncode exampleRuntime s = s" "textDecode exampleRuntime s = s"
  "digestMD5 exampleRuntime s = s"
  "aesGcmEncrypt exampleRuntime = exSeal" "aesGcmDecrypt exampleRuntime = exOpen"
  "gzip exampleRuntime s = ''GZ'' @ s" "ungzip exampleRuntime = exUngzip"
  "compress exampleRuntime j = j" "decompress exampleRuntime j = Inr j"
  "jsonParse exampleRuntime s = (if s = [] then Inl SyntaxError else Inr s)"
  "jsonStringify exampleRuntime j = j"
  "headersToJson exampleRuntime hs = concat (map (\<lambda>(k, v). k @ ''='' @ v @ ''&'') hs)"
  "headersFromJson exampleRuntime = exHeadersFromJson"
  "toUpstreamUrl exampleRuntime u su = (if su = [] then Inl TypeError else Inr (su @ exPath u))"
  "globalFetch exampleRuntime i = Inr exampleResponse"
  "maxArguments exampleRuntime = 65536"
  by (simp_all add: exampleRuntime_def)

lemma char_eq_char_of: "(c = char_of (n::nat)) = (take_bit 8 n = of_char c)"
  using char_of_eq_iff [of n c] by auto

lemma replicate_2: "replicate 2 x = [x, x]"
  by (simp add: numeral_2_eq_2)

lemmas char_eval = char_of_eq_iff char_eq_char_of
lemmas atob_eval = atob_def dec6_def stripPadding_def isAsciiWhitespace_def char_eval
lemmas btoa_eval = btoa_def enc6_def char_eval replicate_2

lemma ex_gz: "gzipCompress exampleRuntime ''[1,2,3]'' = Inr ''R1pbMSwyLDNd''"
  by (simp add: gzipCompress_cases ex_fields btoa_eval)

lemma ex_btoa_iv: "btoa exampleIv = ''bm9uY2UtMDEyMzQ1''"
  by (simp add: exampleIv_def btoa_eval)

lemma ex_seal: "exSeal exampleKey exampleIv ''R1pbMSwyLDNd'' = exampleSealed"
  by (simp add: exSeal_def checksum_def exampleKey_def exampleIv_def exampleSealed_def char_eval)

lemma ex_btoa_ct: "btoa exampleSealed = ''UjFwYk1Td3lMRE5k+A==''"
  by (simp add: exampleSealed_def btoa_eval)

lemma ex_lengths: "length exampleIv = 12" "length exampleSealed = 13"
  by (simp_all add: exampleIv_def exampleSealed_def)

lemma ex_encrypt:
  "encrypt exampleRuntime exampleIv ''R1pbMSwyLDNd'' exampleKey = Inr exampleEnvelope"
  by (simp add: encrypt_cases ex_fields ex_seal ex_lengths ex_btoa_iv ex_btoa_ct
        exampleEnvelope_def)

lemma ex_encrypt_large:
  "encrypt exampleRuntime exampleIv (replicate 65536 (CHR ''a'')) exampleKey = Inl RangeError"
  by (simp add: encrypt_cases ex_fields exSeal_def)

lemma ex_split: "splitOn (CHR '':'') exampleEnvelope = [''bm9uY2UtMDEyMzQ1'', ''UjFwYk1Td3lMRE5k+A=='']"
  by (simp add: exampleEnvelope_def)

lemma ex_atob_iv: "atob ''bm9uY2UtMDEyMzQ1'' = Inr exampleIv"
  by (simp add: exampleIv_def atob_eval)

lemma ex_atob_ct: "atob ''UjFwYk1Td3lMRE5k+A=='' = Inr exampleSealed"
  by (simp add: exampleSealed_def atob_eval)

lemma ex_open: "exOpen exampleKey exampleIv exampleSealed = Inr ''R1pbMSwyLDNd''"
  by (simp add: exOpen_def checksum_def exampleKey_def exampleIv_def exampleSealed_def char_eval)

lemma ex_open_other: "exOpen otherKey exampleIv exampleSealed = Inl OperationError"
  by (simp add: exOpen_def checksum_def otherKey_def exampleIv_def exampleSealed_def char_eval)

lemma ex_decrypt: "decrypt exampleRuntime exampleEnvelope exampleKey = Inr ''R1pbMSwyLDNd''"
  by (simp add: decrypt_def Let_def ex_split partOrUndefined_def base64ToArrayBuffer_def
        ex_atob_iv ex_atob_ct ex_fields ex_open)

lemma ex_decrypt_other: "decrypt exampleRuntime exampleEnvelope otherKey = Inl OperationError"
  by (simp add: decrypt_def Let_def ex_split partOrUndefined_def base64ToArrayBuffer_def
        ex_atob_iv ex_atob_ct ex_fields ex_open_other)

lemma ex_expand: "gzipExpand exampleRuntime ''R1pbMSwyLDNd'' = Inr ''[1,2,3]''"
  by (simp add: gzipExpand_def ex_fields exUngzip_def atob_eval)

lemma ex_decode: "decodeBody exampleRuntime exampleEnvelope exampleKey = Inr ''[1,2,3]''"
  by (simp add: decodeBody_def ex_fields ex_decrypt ex_expand)

lemma ex_decode_other: "decodeBody exampleRuntime exampleEnvelope otherKey = Inl OperationError"
  by (simp add: decodeBody_def ex_fields ex_decrypt_other)

lemma ex_headers: "exHeadersFromJson ''content-type=application/json&'' = Inr [(''content-type'', ''application/json'')]"
  by (simp add: exHeadersFromJson_def)

lemma ex_req:
  "rq_url exampleGet = exampleUrl" "rq_url exampleHead = exampleUrl"
  "rq_method exampleGet = ''GET''" "rq_method exampleHead = ''HEAD''"
  "rq_url examplePost = exampleUrl" "rq_method examplePost = ''POST''"
  "rq_url exampleQueryBypass = exampleBypassUrl"
  by (simp_all add: exampleGet_def exampleHead_def examplePost_def exampleQueryBypass_def
        exampleRequest_def)

lemma ex_valid:
  "isValidServiceKey (headers_get (rq_headers (exampleRequest m u hs)) ''x-cache-service-key'')
     (SERVICE_AUTH_KEY exampleEnv)"
  "isValidServiceKey (headers_get (rq_headers (exampleRequest m u hs)) ''x-cache-service-key'')
     (SERVICE_AUTH_KEY otherEnv)"
  by (simp_all add: exampleRequest_def headers_get_def toLowerCase_def lowerChar_def
        isValidServiceKey_def exampleEnv_def otherEnv_def)

lemma ex_import:
  "getEncryptionKey exampleRuntime (D1_CACHESTORE_ENCRYPTION_KEY exampleEnv) = Inr exampleKey"
  "getEncryptionKey exampleRuntime (D1_CACHESTORE_ENCRYPTION_KEY otherEnv) = Inr otherKey"
  by (simp_all add: getEncryptionKey_def ex_fields exampleEnv_def otherEnv_def exampleKey_def
        otherKey_def)

lemma ex_supabase: "SUPABASE_URL exampleEnv = ''https://project.supabase.co''"
  "SUPABASE_URL otherEnv = ''https://project.supabase.co''"
  by (simp_all add: exampleEnv_def otherEnv_def)

lemma ex_ttl: "parseTTL (rq_headers exampleGet) = 30"
  by code_simp

lemma ex_cacheable: "canCacheEndpoint exampleUrl"
  by code_simp

lemma ex_bypass: "\<not> canCacheEndpoint (rq_url exampleRealtime)"
  by code_simp

lemma ex_should: "shouldCacheResponse exampleGet exampleResponse"
  by code_simp

lemma ex_upstream:
  "fetchFromSupabase exampleRuntime exampleGet ''https://project.supabase.co''
     = (Inr exampleResponse,
        [UpstreamFetch \<lparr>rq_method = ''GET'',
           rq_url = ''https://project.supabase.co/rest/v1/countries?select=*'',
           rq_headers = [], rq_body = None\<rparr>])"
  by (simp add: fetchFromSupabase_def ex_fields exampleGet_def exampleRequest_def exampleUrl_def
        exPath_def headers_delete_def toLowerCase_def lowerChar_def)

lemma ex_upstream_post:
  "fetchFromSupabase exampleRuntime examplePost ''https://project.supabase.co''
     = (Inr exampleResponse,
        [UpstreamFetch \<lparr>rq_method = ''POST'',
           rq_url = ''https://project.supabase.co/rest/v1/countries?select=*'',
           rq_headers = [], rq_body = None\<rparr>])"
  by (simp add: fetchFromSupabase_def ex_fields examplePost_def exampleRequest_def
        exampleUrl_def exPath_def headers_delete_def toLowerCase_def lowerChar_def)

lemma ex_upstream_query:
  "fetchFromSupabase exampleRuntime exampleQueryBypass ''https://project.supabase.co''
     = (Inr exampleResponse,
        [UpstreamFetch \<lparr>rq_method = ''GET'',
           rq_url = ''https://project.supabase.co/rest/v1/countries?select=*&next=/realtime/x'',
           rq_headers = [], rq_body = None\<rparr>])"
  by (simp add: fetchFromSupabase_def ex_fields exampleQueryBypass_def exampleRequest_def
        exampleBypassUrl_def exPath_def headers_delete_def toLowerCase_def lowerChar_def)

lemma ex_upstream_realtime:
  "fetchFromSupabase exampleRuntime exampleRealtime ''https://project.supabase.co''
     = (Inr exampleResponse,
        [UpstreamFetch \<lparr>rq_method = ''GET'',
           rq_url = ''https://project.supabase.co/realtime/v1/websocket'',
           rq_headers = [], rq_body = None\<rparr>])"
  by (simp add: fetchFromSupabase_def ex_fields exampleRealtime_def exampleRequest_def
        exPath_def headers_delete_def toLowerCase_def lowerChar_def)

lemma ex_iso: "toISOString 1704067230000 = Inr ''2024-01-01T00:00:30.000Z''"
  by code_simp

lemma ex_now: "CURRENT_TIMESTAMP 1704067200000 = ''2024-01-01 00:00:00''"
  by code_simp

lemma ex_lookup_empty: "getCachedResponse P k emptyDb ek now = Inr None"
  by (simp add: getCachedResponse_def d1_first_def emptyDb_def)

lemma ex_store:
  "cacheResponse exampleRuntime k ''[1,2,3]'' exampleResponse 30 emptyDb exampleKey
     1704067200000 exampleIv
   = (Inr (exampleDb k), [StoreWrite k ''2024-01-01T00:00:30.000Z''])"
  by (simp add: cacheResponse_def Let_def ex_fields ex_iso ex_gz ex_encrypt ex_now
        d1_insert_or_replace_def emptyDb_def exampleRow_def exampleDb_def exampleResponse_def)

lemma ex_run_get:
  "fetch exampleRuntime exampleEnv 1704067200000 exampleIv emptyDb exampleGet
   = (Inr exampleResponse, exampleDb (generateCacheKey exampleRuntime exampleUrl),
      [StoreRead (generateCacheKey exampleRuntime exampleUrl),
       UpstreamFetch \<lparr>rq_method = ''GET'',
          rq_url = ''https://project.supabase.co/rest/v1/countries?select=*'',
          rq_headers = [], rq_body = None\<rparr>,
       StoreWrite (generateCacheKey exampleRuntime exampleUrl) ''2024-01-01T00:00:30.000Z''])"
proof -
  have b: "textDecode exampleRuntime (rs_body exampleResponse) = ''[1,2,3]''"
    by (simp add: ex_fields exampleResponse_def)
  have v: "isValidServiceKey (headers_get (rq_headers exampleGet) ''x-cache-service-key'')
             (SERVICE_AUTH_KEY exampleEnv)"
    unfolding exampleGet_def by (rule ex_valid)
  show ?thesis
    by (simp add: fetch_def Let_def v ex_import ex_req ex_ttl ex_cacheable ex_lookup_empty
          ex_supabase ex_upstream ex_should b ex_store)
qed

lemma ex_times:
  "CURRENT_TIMESTAMP 1704067210000 = ''2024-01-01 00:00:10''"
  "CURRENT_TIMESTAMP 1704067229000 = ''2024-01-01 00:00:29''"
  "CURRENT_TIMESTAMP 1704067231000 = ''2024-01-01 00:00:31''"
  "CURRENT_TIMESTAMP 1704153599000 = ''2024-01-01 23:59:59''"
  "CURRENT_TIMESTAMP 1704153600000 = ''2024-01-02 00:00:00''"
  by code_simp+

lemma ex_find:
  "textGreater ''2024-01-01T00:00:30.000Z'' (CURRENT_TIMESTAMP now)
   \<Longrightarrow> d1_first (exampleDb k) k now = Inr (Some (exampleRow k))"
  "\<not> textGreater ''2024-01-01T00:00:30.000Z'' (CURRENT_TIMESTAMP now)
   \<Longrightarrow> d1_first (exampleDb k) k now = Inr None"
  by (simp_all add: d1_first_def exampleDb_def exampleRow_def)

lemma ex_row: "row_body (exampleRow k) = exampleEnvelope" "row_status (exampleRow k) = 200"
  "row_headers (exampleRow k) = ''content-type=application/json&''"
  "row_key (exampleRow k) = k" "row_expires (exampleRow k) = ''2024-01-01T00:00:30.000Z''"
  by (simp_all add: exampleRow_def)

lemma ex_lookup_hit:
  assumes "textGreater ''2024-01-01T00:00:30.000Z'' (CURRENT_TIMESTAMP now)"
  shows "getCachedResponse exampleRuntime k (exampleDb k) exampleKey now = Inr (Some exampleCached)"
  by (simp add: getCachedResponse_def ex_find(1) [OF assms] parseD1Row_def ex_row ex_decode
        ex_fields ex_headers newResponse_def exampleCached_def)

subsection \<open>The envelope check on the example\<close>



subsection \<open>What the handler does in each branch\<close>

lemma fetchFromSupabase_events:
  "e \<in> set (snd (fetchFromSupabase P request u)) \<Longrightarrow> isUpstreamFetch e"
  by (auto simp: fetchFromSupabase_def Let_def split: sum.splits)

lemma fetchFromSupabase_no_store:
  "e \<in> set (snd (fetchFromSupabase P request u)) \<Longrightarrow> \<not> isStoreEvent e \<and> \<not> isStoreWrite e"
  by (auto simp: fetchFromSupabase_def Let_def split: sum.splits)

lemma shouldCacheResponse_gates:
  assumes "shouldCacheResponse rq rs"
  shows "rs_ok rs \<and> 200 \<le> rs_status rs \<and> rs_status rs \<le> 299
         \<and> (\<forall>cc. headers_get (rs_headers rs) ''Cache-Control'' = Some cc \<longrightarrow> \<not> str_includes cc ''no-store'')
         \<and> (rq_method rq = ''GET'' \<or> rq_method rq = ''HEAD'')
         \<and> (str_includes (rq_url rq) ''/rest/'' \<longrightarrow> str_includes (rq_url rq) ''?select='')"
  using assms
  by (auto simp: shouldCacheResponse_def split: if_splits option.splits)

lemma fetch_writes_only_if_eligible:
  assumes "(\<exists>e \<in> set (snd (snd (fetch P env now iv db request))). isStoreWrite e)
           \<or> fst (snd (fetch P env now iv db request)) \<noteq> db"
  shows "\<exists>rs. fst (fetchFromSupabase P request (SUPABASE_URL env)) = Inr rs
              \<and> shouldCacheResponse request rs"
proof (rule ccontr)
  assume neg: "\<not> ?thesis"
  have nw: "\<And>e. e \<in> set (snd (fetchFromSupabase P request (SUPABASE_URL env))) \<Longrightarrow> \<not> isStoreWrite e"
    using fetchFromSupabase_no_store by blast
  obtain r evs where F: "fetchFromSupabase P request (SUPABASE_URL env) = (r, evs)"
    by (cases "fetchFromSupabase P request (SUPABASE_URL env)")
  have nw': "\<And>e. e \<in> set evs \<Longrightarrow> \<not> isStoreWrite e"
    using nw F by simp
  have "(\<forall>e \<in> set (snd (snd (fetch P env now iv db request))). \<not> isStoreWrite e)
        \<and> fst (snd (fetch P env now iv db request)) = db"
    using neg nw' F
    by (auto simp: fetch_def Let_def split: sum.splits option.splits prod.splits if_splits)
  with assms show False by blast
qed


lemma fetch_bypass:
  assumes "\<not> canCacheEndpoint (rq_url request)"
  shows "(\<forall>e \<in> set (snd (snd (fetch P env now iv db request))). \<not> isStoreEvent e)
         \<and> fst (snd (fetch P env now iv db request)) = db
         \<and> (isValidServiceKey (headers_get (rq_headers request) ''x-cache-service-key'')
                (SERVICE_AUTH_KEY env)
              \<longrightarrow> (\<forall>k. getEncryptionKey P (D1_CACHESTORE_ENCRYPTION_KEY env) = Inr k
                    \<longrightarrow> fetch P env now iv db request
                        = (fst (fetchFromSupabase P request (SUPABASE_URL env)), db,
                           snd (fetchFromSupabase P request (SUPABASE_URL env)))))"
proof -
  obtain r evs where F: "fetchFromSupabase P request (SUPABASE_URL env) = (r, evs)"
    by (cases "fetchFromSupabase P request (SUPABASE_URL env)")
  have ns: "\<And>e. e \<in> set evs \<Longrightarrow> \<not> isStoreEvent e"
    using fetchFromSupabase_no_store [of _ P request "SUPABASE_URL env"] F by simp
  show ?thesis
    using assms F ns
    by (auto simp: fetch_def Let_def split: sum.splits)
qed

lemma bypass_substring:
  "str_includes url ''/realtime/'' \<or> str_includes url ''/subscriptions/''
   \<Longrightarrow> \<not> canCacheEndpoint url"
  by (auto simp: canCacheEndpoint_def bypassCacheOnPath_def)

lemma decode_failure_lookup:
  assumes "d1_first db cacheKey now = Inr (Some row)"
    and "decodeBody P (row_body row) k = Inl e"
  shows "getCachedResponse P cacheKey db k now = Inr None"
  using assms by (simp add: getCachedResponse_def parseD1Row_def)

lemma no_row_lookup:
  assumes "d1_first db cacheKey now = Inr None"
  shows "getCachedResponse P cacheKey db k now = Inr None"
  using assms by (simp add: getCachedResponse_def)

lemma fetch_on_miss:
  assumes "isValidServiceKey (headers_get (rq_headers request) ''x-cache-service-key'')
             (SERVICE_AUTH_KEY env)"
    and "getEncryptionKey P (D1_CACHESTORE_ENCRYPTION_KEY env) = Inr k"
    and "canCacheEndpoint (rq_url request)"
    and "getCachedResponse P (generateCacheKey P (rq_url request)) db k now = Inr None"
  shows "fst (fetch P env now iv db request)
           = (case fst (fetchFromSupabase P request (SUPABASE_URL env)) of
                Inl err \<Rightarrow> Inr (textResponse ''Internal Server Error'' 500)
              | Inr rs \<Rightarrow> Inr rs)
         \<and> (\<exists>wevs. snd (snd (fetch P env now iv db request))
               = StoreRead (generateCacheKey P (rq_url request))
                 # snd (fetchFromSupabase P request (SUPABASE_URL env)) @ wevs)"
  using assms
  by (auto simp: fetch_def Let_def split: sum.splits prod.splits)

lemma fetch_on_hit:
  assumes "isValidServiceKey (headers_get (rq_headers request) ''x-cache-service-key'')
             (SERVICE_AUTH_KEY env)"
    and "getEncryptionKey P (D1_CACHESTORE_ENCRYPTION_KEY env) = Inr k"
    and "canCacheEndpoint (rq_url request)"
    and "getCachedResponse P (generateCacheKey P (rq_url request)) db k now = Inr (Some cached)"
  shows "fetch P env now iv db request
           = (Inr cached, db, [StoreRead (generateCacheKey P (rq_url request))])"
  using assms
  by (simp add: fetch_def Let_def)

subsection \<open>Which responses are stored\<close>

text \<open>
  Claim C5: the handler writes to the store only when every condition of
  \<^verbatim>\<open>shouldCacheResponse\<close> holds for the request and for the response upstream gave: a
  status from 200 to 299, no \<^verbatim>\<open>no-store\<close> in the response's \<^verbatim>\<open>Cache-Control\<close>, the method
  \<^verbatim>\<open>GET\<close> or \<^verbatim>\<open>HEAD\<close>, and \<^verbatim>\<open>?select=\<close> in a URL that contains \<^verbatim>\<open>/rest/\<close>. In
  particular a \<^verbatim>\<open>POST\<close>, a response with \<^verbatim>\<open>no-store\<close> and a response whose status is not
  2xx leave no write event and leave the database as it was.
\<close>

theorem store_write_only_for_eligible_response:
  "(((\<exists>e \<in> set (snd (snd (fetch P env now iv db request))). isStoreWrite e)
      \<or> fst (snd (fetch P env now iv db request)) \<noteq> db)
     \<longrightarrow> (\<exists>rs. fst (fetchFromSupabase P request (SUPABASE_URL env)) = Inr rs
            \<and> shouldCacheResponse request rs
            \<and> rs_ok rs \<and> 200 \<le> rs_status rs \<and> rs_status rs \<le> 299
            \<and> (\<forall>cc. headers_get (rs_headers rs) ''Cache-Control'' = Some cc
                  \<longrightarrow> \<not> str_includes cc ''no-store'')
            \<and> (rq_method request = ''GET'' \<or> rq_method request = ''HEAD'')
            \<and> (str_includes (rq_url request) ''/rest/''
                  \<longrightarrow> str_includes (rq_url request) ''?select='')))
   \<and> (\<forall>rs. fst (fetchFromSupabase P request (SUPABASE_URL env)) = Inr rs
          \<and> (rq_method request = ''POST''
              \<or> (\<exists>cc. headers_get (rs_headers rs) ''Cache-Control'' = Some cc
                       \<and> str_includes cc ''no-store'')
              \<or> rs_status rs < 200 \<or> rs_status rs > 299)
        \<longrightarrow> (\<forall>e \<in> set (snd (snd (fetch P env now iv db request))). \<not> isStoreWrite e)
            \<and> fst (snd (fetch P env now iv db request)) = db)"
proof -
  have A: "\<exists>rs. fst (fetchFromSupabase P request (SUPABASE_URL env)) = Inr rs
              \<and> shouldCacheResponse request rs"
    if "(\<exists>e \<in> set (snd (snd (fetch P env now iv db request))). isStoreWrite e)
        \<or> fst (snd (fetch P env now iv db request)) \<noteq> db"
    using that by (rule fetch_writes_only_if_eligible)
  have B: "\<not> shouldCacheResponse request rs"
    if "rq_method request = ''POST''
        \<or> (\<exists>cc. headers_get (rs_headers rs) ''Cache-Control'' = Some cc
                 \<and> str_includes cc ''no-store'')
        \<or> rs_status rs < 200 \<or> rs_status rs > 299" for rs
    using that shouldCacheResponse_gates [of request rs] by auto
  show ?thesis
  proof (intro conjI impI allI)
    assume w: "(\<exists>e \<in> set (snd (snd (fetch P env now iv db request))). isStoreWrite e)
               \<or> fst (snd (fetch P env now iv db request)) \<noteq> db"
    from A [OF w] obtain rs where
      rs: "fst (fetchFromSupabase P request (SUPABASE_URL env)) = Inr rs"
          "shouldCacheResponse request rs"
      by blast
    from shouldCacheResponse_gates [OF rs(2)] rs
    show "\<exists>rs. fst (fetchFromSupabase P request (SUPABASE_URL env)) = Inr rs
            \<and> shouldCacheResponse request rs
            \<and> rs_ok rs \<and> 200 \<le> rs_status rs \<and> rs_status rs \<le> 299
            \<and> (\<forall>cc. headers_get (rs_headers rs) ''Cache-Control'' = Some cc
                  \<longrightarrow> \<not> str_includes cc ''no-store'')
            \<and> (rq_method request = ''GET'' \<or> rq_method request = ''HEAD'')
            \<and> (str_includes (rq_url request) ''/rest/''
                  \<longrightarrow> str_includes (rq_url request) ''?select='')"
      by blast
  next
    fix rs
    assume h: "fst (fetchFromSupabase P request (SUPABASE_URL env)) = Inr rs
          \<and> (rq_method request = ''POST''
              \<or> (\<exists>cc. headers_get (rs_headers rs) ''Cache-Control'' = Some cc
                       \<and> str_includes cc ''no-store'')
              \<or> rs_status rs < 200 \<or> rs_status rs > 299)"
    then have n: "\<not> shouldCacheResponse request rs" using B by blast
    show "\<forall>e \<in> set (snd (snd (fetch P env now iv db request))). \<not> isStoreWrite e"
      using A h n by auto
    show "fst (snd (fetch P env now iv db request)) = db"
      using A h n by auto
  qed
qed

theorem store_write_example_witness:
  "(\<exists>e \<in> set (snd (snd (fetch exampleRuntime exampleEnv 1704067200000 exampleIv emptyDb
                              exampleGet))). isStoreWrite e)
   \<and> fst (fetchFromSupabase exampleRuntime exampleGet (SUPABASE_URL exampleEnv))
       = Inr exampleResponse
   \<and> shouldCacheResponse exampleGet exampleResponse
   \<and> rs_status exampleResponse = 200
   \<and> rq_method exampleGet = ''GET''
   \<and> str_includes (rq_url exampleGet) ''/rest/''
   \<and> str_includes (rq_url exampleGet) ''?select=''
   \<and> fst (fetchFromSupabase exampleRuntime examplePost (SUPABASE_URL exampleEnv))
       = Inr exampleResponse
   \<and> rq_method examplePost = ''POST''
   \<and> fst (snd (fetch exampleRuntime exampleEnv 1704067200000 exampleIv emptyDb examplePost))
       = emptyDb"
proof -
  note G = store_write_only_for_eligible_response
    [of exampleRuntime exampleEnv 1704067200000 exampleIv emptyDb exampleGet]
  note Q = store_write_only_for_eligible_response
    [of exampleRuntime exampleEnv 1704067200000 exampleIv emptyDb examplePost]
  have w: "\<exists>e \<in> set (snd (snd (fetch exampleRuntime exampleEnv 1704067200000 exampleIv emptyDb
                                   exampleGet))). isStoreWrite e"
    by (simp add: ex_run_get)
  have u: "fst (fetchFromSupabase exampleRuntime exampleGet (SUPABASE_URL exampleEnv))
             = Inr exampleResponse"
    by (simp add: ex_supabase ex_upstream)
  have p: "fst (fetchFromSupabase exampleRuntime examplePost (SUPABASE_URL exampleEnv))
             = Inr exampleResponse"
    by (simp add: ex_supabase ex_upstream_post)
  have m: "rq_method examplePost = ''POST''" "rq_method exampleGet = ''GET''"
    by (simp_all add: ex_req)
  from G w u have s: "shouldCacheResponse exampleGet exampleResponse"
    by auto
  from G w u have i: "str_includes (rq_url exampleGet) ''/rest/''
                       \<longrightarrow> str_includes (rq_url exampleGet) ''?select=''"
    by auto
  have r: "str_includes (rq_url exampleGet) ''/rest/''"
    unfolding ex_req exampleUrl_def by code_simp
  from Q p m(1)
  have d: "fst (snd (fetch exampleRuntime exampleEnv 1704067200000 exampleIv emptyDb examplePost))
             = emptyDb"
    by blast
  have st: "rs_status exampleResponse = 200"
    by (simp add: exampleResponse_def)
  show ?thesis
    using w u s st m r i p d by (intro conjI) auto
qed

subsection \<open>Bypass paths\<close>

text \<open>
  Claim C6: for a request whose URL hits the bypass list the handler never reads or
  writes the store, whatever the method and the headers: no store event occurs and the
  database is as it was. Once the request has passed the service key check (claim C7)
  and the encryption key is imported, the handler's answer and events are exactly those
  of \<^verbatim>\<open>fetchFromSupabase\<close>: what upstream returned, or the error it threw.
\<close>

theorem bypass_url_never_touches_store:
  assumes "\<not> canCacheEndpoint (rq_url request)"
  shows "(\<forall>e \<in> set (snd (snd (fetch P env now iv db request))). \<not> isStoreEvent e)
         \<and> fst (snd (fetch P env now iv db request)) = db
         \<and> (isValidServiceKey (headers_get (rq_headers request) ''x-cache-service-key'')
                (SERVICE_AUTH_KEY env)
              \<longrightarrow> (\<forall>k. getEncryptionKey P (D1_CACHESTORE_ENCRYPTION_KEY env) = Inr k
                    \<longrightarrow> fetch P env now iv db request
                        = (fst (fetchFromSupabase P request (SUPABASE_URL env)), db,
                           snd (fetchFromSupabase P request (SUPABASE_URL env)))))"
  using assms by (rule fetch_bypass)

theorem bypass_url_example_witness:
  "\<not> canCacheEndpoint (rq_url exampleRealtime)
   \<and> isValidServiceKey (headers_get (rq_headers exampleRealtime) ''x-cache-service-key'')
        (SERVICE_AUTH_KEY exampleEnv)
   \<and> getEncryptionKey exampleRuntime (D1_CACHESTORE_ENCRYPTION_KEY exampleEnv) = Inr exampleKey
   \<and> fetch exampleRuntime exampleEnv 1704067210000 exampleIv
        (exampleDb (generateCacheKey exampleRuntime (rq_url exampleRealtime))) exampleRealtime
       = (Inr exampleResponse,
          exampleDb (generateCacheKey exampleRuntime (rq_url exampleRealtime)),
          [UpstreamFetch \<lparr>rq_method = ''GET'',
             rq_url = ''https://project.supabase.co/realtime/v1/websocket'',
             rq_headers = [], rq_body = None\<rparr>])"
proof -
  have b: "\<not> canCacheEndpoint (rq_url exampleRealtime)"
    by (rule ex_bypass)
  have v: "isValidServiceKey (headers_get (rq_headers exampleRealtime) ''x-cache-service-key'')
             (SERVICE_AUTH_KEY exampleEnv)"
    unfolding exampleRealtime_def by (rule ex_valid)
  have k: "getEncryptionKey exampleRuntime (D1_CACHESTORE_ENCRYPTION_KEY exampleEnv)
             = Inr exampleKey"
    by (rule ex_import)
  from bypass_url_never_touches_store [OF b, of exampleRuntime exampleEnv 1704067210000 exampleIv
      "exampleDb (generateCacheKey exampleRuntime (rq_url exampleRealtime))"] v k
  have "fetch exampleRuntime exampleEnv 1704067210000 exampleIv
          (exampleDb (generateCacheKey exampleRuntime (rq_url exampleRealtime))) exampleRealtime
        = (fst (fetchFromSupabase exampleRuntime exampleRealtime (SUPABASE_URL exampleEnv)),
           exampleDb (generateCacheKey exampleRuntime (rq_url exampleRealtime)),
           snd (fetchFromSupabase exampleRuntime exampleRealtime (SUPABASE_URL exampleEnv)))"
    by blast
  then show ?thesis
    using b v k by (simp add: ex_supabase ex_upstream_realtime)
qed

text \<open>
  Claim C9: the bypass check looks for \<^verbatim>\<open>/realtime/\<close> and \<^verbatim>\<open>/subscriptions/\<close> in the whole
  URL text, query string included: wherever one of them occurs, \<^verbatim>\<open>canCacheEndpoint\<close> is
  false, the store is not touched, and a request that passed the service key check is
  handed to upstream.
\<close>

theorem bypass_matches_anywhere_in_url:
  assumes "str_includes (rq_url request) ''/realtime/''
           \<or> str_includes (rq_url request) ''/subscriptions/''"
  shows "\<not> canCacheEndpoint (rq_url request)
         \<and> (\<forall>e \<in> set (snd (snd (fetch P env now iv db request))). \<not> isStoreEvent e)
         \<and> fst (snd (fetch P env now iv db request)) = db
         \<and> (isValidServiceKey (headers_get (rq_headers request) ''x-cache-service-key'')
                (SERVICE_AUTH_KEY env)
              \<longrightarrow> (\<forall>k. getEncryptionKey P (D1_CACHESTORE_ENCRYPTION_KEY env) = Inr k
                    \<longrightarrow> fetch P env now iv db request
                        = (fst (fetchFromSupabase P request (SUPABASE_URL env)), db,
                           snd (fetchFromSupabase P request (SUPABASE_URL env)))))"
  using bypass_substring [OF assms] fetch_bypass [of request P env now iv db]
  by blast

theorem bypass_in_query_string_witness:
  "str_includes (rq_url exampleQueryBypass) ''/realtime/''
   \<and> \<not> str_includes (takeWhile (\<lambda>c. c \<noteq> CHR ''?'') (rq_url exampleQueryBypass)) ''/realtime/''
   \<and> \<not> str_includes (takeWhile (\<lambda>c. c \<noteq> CHR ''?'') (rq_url exampleQueryBypass))
          ''/subscriptions/''
   \<and> \<not> canCacheEndpoint (rq_url exampleQueryBypass)
   \<and> fetch exampleRuntime exampleEnv 1704067210000 exampleIv
        (exampleDb (generateCacheKey exampleRuntime (rq_url exampleQueryBypass)))
        exampleQueryBypass
       = (Inr exampleResponse,
          exampleDb (generateCacheKey exampleRuntime (rq_url exampleQueryBypass)),
          [UpstreamFetch \<lparr>rq_method = ''GET'',
             rq_url = ''https://project.supabase.co/rest/v1/countries?select=*&next=/realtime/x'',
             rq_headers = [], rq_body = None\<rparr>])"
proof -
  have i: "str_includes (rq_url exampleQueryBypass) ''/realtime/''"
    unfolding ex_req exampleBypassUrl_def by code_simp
  have p: "\<not> str_includes (takeWhile (\<lambda>c. c \<noteq> CHR ''?'') (rq_url exampleQueryBypass)) ''/realtime/''"
    "\<not> str_includes (takeWhile (\<lambda>c. c \<noteq> CHR ''?'') (rq_url exampleQueryBypass)) ''/subscriptions/''"
    unfolding ex_req exampleBypassUrl_def by code_simp+
  have v: "isValidServiceKey (headers_get (rq_headers exampleQueryBypass) ''x-cache-service-key'')
             (SERVICE_AUTH_KEY exampleEnv)"
    unfolding exampleQueryBypass_def by (rule ex_valid)
  have k: "getEncryptionKey exampleRuntime (D1_CACHESTORE_ENCRYPTION_KEY exampleEnv)
             = Inr exampleKey"
    by (rule ex_import)
  note T = bypass_matches_anywhere_in_url [of exampleQueryBypass exampleRuntime exampleEnv
      1704067210000 exampleIv
      "exampleDb (generateCacheKey exampleRuntime (rq_url exampleQueryBypass))", OF disjI1, OF i]
  from T have b: "\<not> canCacheEndpoint (rq_url exampleQueryBypass)"
    by blast
  from T v k
  have "fetch exampleRuntime exampleEnv 1704067210000 exampleIv
          (exampleDb (generateCacheKey exampleRuntime (rq_url exampleQueryBypass)))
          exampleQueryBypass
        = (fst (fetchFromSupabase exampleRuntime exampleQueryBypass (SUPABASE_URL exampleEnv)),
           exampleDb (generateCacheKey exampleRuntime (rq_url exampleQueryBypass)),
           snd (fetchFromSupabase exampleRuntime exampleQueryBypass (SUPABASE_URL exampleEnv)))"
    by blast
  then show ?thesis
    using i p b by (simp add: ex_supabase ex_upstream_query)
qed

subsection \<open>Rows that do not decode\<close>

lemma decodeBody_failure:
  assumes "(\<exists>e. decrypt P (textDecode P b) k = Inl e)
     \<or> (\<exists>d e. decrypt P (textDecode P b) k = Inr d \<and> gzipExpand P d = Inl e)
     \<or> (\<exists>d g e. decrypt P (textDecode P b) k = Inr d \<and> gzipExpand P d = Inr g
            \<and> jsonParse P g = Inl e)
     \<or> (\<exists>d g j e. decrypt P (textDecode P b) k = Inr d \<and> gzipExpand P d = Inr g
            \<and> jsonParse P g = Inr j \<and> decompress P j = Inl e)"
  shows "\<exists>e. decodeBody P b k = Inl e"
  using assms by (auto simp: decodeBody_def)

text \<open>
  Claim C8: when the lookup finds a row whose body does not decode (decryption rejects
  it, or expanding, parsing or decompressing it fails), \<^verbatim>\<open>getCachedResponse\<close> answers
  \<^verbatim>\<open>null\<close>, as it does when the store holds no row at all. No error leaves the lookup:
  for a request that reached it, the handler goes on to the upstream fetch and answers
  with the upstream response (or with 500 if upstream itself fails), never with a thrown
  error.
\<close>

theorem undecodable_row_is_a_miss:
  assumes "d1_first db cacheKey now = Inr (Some row)"
    and "(\<exists>e. decrypt P (textDecode P (row_body row)) k = Inl e)
     \<or> (\<exists>d e. decrypt P (textDecode P (row_body row)) k = Inr d \<and> gzipExpand P d = Inl e)
     \<or> (\<exists>d g e. decrypt P (textDecode P (row_body row)) k = Inr d \<and> gzipExpand P d = Inr g
            \<and> jsonParse P g = Inl e)
     \<or> (\<exists>d g j e. decrypt P (textDecode P (row_body row)) k = Inr d \<and> gzipExpand P d = Inr g
            \<and> jsonParse P g = Inr j \<and> decompress P j = Inl e)"
  shows "getCachedResponse P cacheKey db k now = Inr None
         \<and> getCachedResponse P cacheKey (db\<lparr>rows := []\<rparr>) k now = Inr None
         \<and> (cacheKey = generateCacheKey P (rq_url request)
              \<and> isValidServiceKey (headers_get (rq_headers request) ''x-cache-service-key'')
                   (SERVICE_AUTH_KEY env)
              \<and> getEncryptionKey P (D1_CACHESTORE_ENCRYPTION_KEY env) = Inr k
              \<and> canCacheEndpoint (rq_url request)
            \<longrightarrow> fst (fetch P env now iv db request)
                  = (case fst (fetchFromSupabase P request (SUPABASE_URL env)) of
                       Inl err \<Rightarrow> Inr (textResponse ''Internal Server Error'' 500)
                     | Inr rs \<Rightarrow> Inr rs)
                \<and> (\<exists>wevs. snd (snd (fetch P env now iv db request))
                      = StoreRead cacheKey
                        # snd (fetchFromSupabase P request (SUPABASE_URL env)) @ wevs))"
proof -
  from assms(2) obtain e where e: "decodeBody P (row_body row) k = Inl e"
    using decodeBody_failure [of P "row_body row" k] by blast
  have l: "getCachedResponse P cacheKey db k now = Inr None"
    using assms(1) e by (rule decode_failure_lookup)
  have o: "online db"
    using assms(1) by (auto simp: d1_first_def split: if_splits)
  have n: "getCachedResponse P cacheKey (db\<lparr>rows := []\<rparr>) k now = Inr None"
    using o by (simp add: getCachedResponse_def d1_first_def)
  show ?thesis
    using l n fetch_on_miss [of request env P k db now iv] by auto
qed

theorem undecodable_row_example_witness:
  "d1_first (exampleDb (generateCacheKey exampleRuntime (rq_url exampleGet)))
      (generateCacheKey exampleRuntime (rq_url exampleGet)) 1704067210000
     = Inr (Some (exampleRow (generateCacheKey exampleRuntime (rq_url exampleGet))))
   \<and> decrypt exampleRuntime
        (textDecode exampleRuntime
           (row_body (exampleRow (generateCacheKey exampleRuntime (rq_url exampleGet)))))
        otherKey
       = Inl OperationError
   \<and> getCachedResponse exampleRuntime (generateCacheKey exampleRuntime (rq_url exampleGet))
        (exampleDb (generateCacheKey exampleRuntime (rq_url exampleGet))) otherKey 1704067210000
       = Inr None
   \<and> fst (fetch exampleRuntime otherEnv 1704067210000 exampleIv
             (exampleDb (generateCacheKey exampleRuntime (rq_url exampleGet))) exampleGet)
       = Inr exampleResponse"
proof -
  have f: "d1_first (exampleDb (generateCacheKey exampleRuntime (rq_url exampleGet)))
      (generateCacheKey exampleRuntime (rq_url exampleGet)) 1704067210000
     = Inr (Some (exampleRow (generateCacheKey exampleRuntime (rq_url exampleGet))))"
    by (rule ex_find(1)) (simp add: ex_times)
  have d: "decrypt exampleRuntime
        (textDecode exampleRuntime
           (row_body (exampleRow (generateCacheKey exampleRuntime (rq_url exampleGet)))))
        otherKey
       = Inl OperationError"
    by (simp add: ex_row ex_fields ex_decrypt_other)
  have v: "isValidServiceKey (headers_get (rq_headers exampleGet) ''x-cache-service-key'')
             (SERVICE_AUTH_KEY otherEnv)"
    unfolding exampleGet_def by (rule ex_valid)
  have c: "canCacheEndpoint (rq_url exampleGet)"
    by (simp add: ex_req ex_cacheable)
  note T = undecodable_row_is_a_miss [of "exampleDb (generateCacheKey exampleRuntime (rq_url exampleGet))"
      "generateCacheKey exampleRuntime (rq_url exampleGet)" 1704067210000
      "exampleRow (generateCacheKey exampleRuntime (rq_url exampleGet))" exampleRuntime otherKey
      exampleGet otherEnv exampleIv, OF f disjI1, OF exI, OF d]
  from T have l: "getCachedResponse exampleRuntime (generateCacheKey exampleRuntime (rq_url exampleGet))
        (exampleDb (generateCacheKey exampleRuntime (rq_url exampleGet))) otherKey 1704067210000
       = Inr None"
    by blast
  from T v c ex_import(2)
  have "fst (fetch exampleRuntime otherEnv 1704067210000 exampleIv
             (exampleDb (generateCacheKey exampleRuntime (rq_url exampleGet))) exampleGet)
       = (case fst (fetchFromSupabase exampleRuntime exampleGet (SUPABASE_URL otherEnv)) of
            Inl err \<Rightarrow> Inr (textResponse ''Internal Server Error'' 500)
          | Inr rs \<Rightarrow> Inr rs)"
    by blast
  then have r: "fst (fetch exampleRuntime otherEnv 1704067210000 exampleIv
             (exampleDb (generateCacheKey exampleRuntime (rq_url exampleGet))) exampleGet)
       = Inr exampleResponse"
    by (simp add: ex_supabase ex_upstream)
  show ?thesis
    using f d l r by (intro conjI)
qed

subsection \<open>The cache key\<close>

lemma hexDigit_table: "map hexDigit [0..<16] = hexDigits"
  by code_simp

lemma hexDigit_nth:
  assumes "n < 16"
  shows "hexDigit n = hexDigits ! n"
proof -
  have "hexDigits ! n = map hexDigit [0..<16] ! n"
    by (simp only: hexDigit_table)
  also have "\<dots> = hexDigit n"
    using assms by simp
  finally show ?thesis
    by simp
qed

lemma byte_hex:
  "padStart 2 (toString16 (of_char b))
     = [hexDigits ! ((of_char b :: nat) div 16), hexDigits ! ((of_char b :: nat) mod 16)]"
proof -
  have lt: "(of_char b :: nat) < 256"
    by (rule of_char_lt_256)
  then have d: "(of_char b :: nat) div 16 < 16"
    by (simp add: div_less_iff_less_mult)
  have z: "hexDigits ! 0 = CHR ''0''"
    by (simp add: hexDigits_def)
  show ?thesis
  proof (cases "(of_char b :: nat) < 16")
    case True
    then show ?thesis
      by (simp add: toString16_def padStart_def hexDigit_nth z)
  next
    case False
    then show ?thesis
      using d by (simp add: toString16_def padStart_def hexDigit_nth)
  qed
qed

lemma generateCacheKey_hex:
  "generateCacheKey P url = hexOfBytes (digestMD5 P (textEncode P url))"
  by (simp add: generateCacheKey_def hexOfBytes_def Let_def byte_hex)

lemma length_hexOfBytes: "length (hexOfBytes bs) = 2 * length bs"
  by (induction bs) (simp_all add: hexOfBytes_def)

lemma find_replaced:
  assumes "row_key new = k" and "Q new"
  shows "find (\<lambda>r. row_key r = k \<and> Q r) (filter (\<lambda>r. row_key r \<noteq> k) xs @ [new]) = Some new"
  using assms by (induction xs) simp_all

lemma d1_first_after_insert:
  assumes "d1_insert_or_replace db k b st hs ex now1 = Inr db1"
    and "textGreater ex (CURRENT_TIMESTAMP now2)"
  shows "d1_first db1 k now2
           = Inr (Some \<lparr>row_key = k, row_body = b, row_status = st, row_headers = hs,
                        row_expires = ex, row_created_at = CURRENT_TIMESTAMP now1\<rparr>)"
proof -
  from assms(1) have on: "online db"
    and db1: "db1 = db\<lparr>rows := filter (\<lambda>r. row_key r \<noteq> k) (rows db)
                     @ [\<lparr>row_key = k, row_body = b, row_status = st, row_headers = hs,
                         row_expires = ex, row_created_at = CURRENT_TIMESTAMP now1\<rparr>]\<rparr>"
    by (auto simp: d1_insert_or_replace_def split: if_splits)
  show ?thesis
    unfolding db1 d1_first_def using on assms(2)
    by (simp add: find_replaced)
qed

lemma shouldCacheResponse_status:
  assumes "shouldCacheResponse rq rs"
  shows "200 \<le> rs_status rs \<and> rs_status rs < 300"
  using assms by (auto simp: shouldCacheResponse_def split: if_splits)

lemma cacheResponse_stores:
  assumes "toISOString (now + ttl * 1000) = Inr expires"
    and "jsonParse P b = Inr x"
    and "gzipCompress P (jsonStringify P (compress P x)) = Inr z"
    and "encrypt P iv z k = Inr sealed"
  shows "cacheResponse P cacheKey b rs ttl db k now iv
           = (d1_insert_or_replace db cacheKey (textEncode P sealed) (rs_status rs)
                (headersToJson P (rs_headers rs)) expires now,
              [StoreWrite cacheKey expires])"
  using assms by (simp add: cacheResponse_def Let_def)

lemma getCachedResponse_online:
  assumes "getCachedResponse P cacheKey db k now = Inr r"
  shows "online db"
  using assms by (auto simp: getCachedResponse_def d1_first_def split: if_splits)

lemma ex_key:
  "hexOfBytes exampleUrl
     = ''68747470733a2f2f63616368652e6578616d706c652e776f726b6572732e6465762f726573742f76312f636f756e74726965733f73656c6563743d2a''"
  by (simp add: hexOfBytes_def hexDigits_def exampleUrl_def)

text \<open>
  Claim C10: the cache key is the hexadecimal text, two lower-case digits per byte, of
  the MD5 digest of the URL text and of nothing else, so two requests with one URL have
  one key, whatever their methods, headers and bodies. Let a request \<open>r1\<close> that passed
  the service key check miss the store, get the response \<open>rs\<close> from upstream, with a
  status other than 204 and 205, and be eligible for storing, and let every step of the
  write succeed: the body of \<open>rs\<close> parses
  as the JSON value \<open>x\<close>, the expiry date is in range, and base64 and \<^verbatim>\<open>encrypt\<close> accept
  their inputs. Then the handler answers \<open>rs\<close> and writes one row under the key. Let the
  libraries and the runtime invert their own steps on that row, and let the row compare
  as fresh at a later time. Then every request \<open>r2\<close> with that URL that passed the
  service key check, whatever its method, headers and body, is answered from the
  database the first run left, without an upstream fetch: with the status of \<open>rs\<close>, the
  stored headers, and the serialisation of \<open>x\<close> as body. A \<^verbatim>\<open>HEAD\<close> request is served
  what a \<^verbatim>\<open>GET\<close> request stored.
\<close>

theorem cache_key_depends_on_url_only:
  fixes x :: 'j
  assumes url: "rq_url r2 = rq_url r1"
    and v1: "isValidServiceKey (headers_get (rq_headers r1) ''x-cache-service-key'')
               (SERVICE_AUTH_KEY env)"
    and v2: "isValidServiceKey (headers_get (rq_headers r2) ''x-cache-service-key'')
               (SERVICE_AUTH_KEY env)"
    and key: "getEncryptionKey P (D1_CACHESTORE_ENCRYPTION_KEY env) = Inr k"
    and can: "canCacheEndpoint (rq_url r1)"
    and miss: "getCachedResponse P (generateCacheKey P (rq_url r1)) db k now1 = Inr None"
    and up: "fetchFromSupabase P r1 (SUPABASE_URL env) = (Inr rs, evs)"
    and should: "shouldCacheResponse r1 rs"
    and st: "rs_status rs \<notin> {204, 205}"
    and iso: "toISOString (now1 + parseTTL (rq_headers r1) * 1000) = Inr expires"
    and parse: "jsonParse P (textDecode P (rs_body rs)) = Inr x"
    and gz: "gzipCompress P (jsonStringify P (compress P x)) = Inr z"
    and enc: "encrypt P iv z k = Inr sealed"
    and lib1: "decompress P (compress P x) = Inr x"
    and lib2: "jsonParse P (jsonStringify P (compress P x)) = Inr (compress P x)"
    and lib3: "ungzip P (gzip P (jsonStringify P (compress P x)))
                 = Inr (jsonStringify P (compress P x))"
    and lib4: "aesGcmDecrypt P k iv (aesGcmEncrypt P k iv (textEncode P z)) = Inr (textEncode P z)"
    and lib5: "textDecode P (textEncode P z) = z"
    and lib6: "textDecode P (textEncode P sealed) = sealed"
    and hdr: "headersFromJson P (headersToJson P (rs_headers rs)) = Inr hs"
    and fresh: "textGreater expires (CURRENT_TIMESTAMP now2)"
  shows "generateCacheKey P (rq_url r2) = generateCacheKey P (rq_url r1)
       \<and> generateCacheKey P (rq_url r1) = hexOfBytes (digestMD5 P (textEncode P (rq_url r1)))
       \<and> fst (fetch P env now1 iv db r1) = Inr rs
       \<and> snd (snd (fetch P env now1 iv db r1))
           = StoreRead (generateCacheKey P (rq_url r1)) # evs
               @ [StoreWrite (generateCacheKey P (rq_url r1)) expires]
       \<and> fetch P env now2 iv2 (fst (snd (fetch P env now1 iv db r1))) r2
           = (Inr \<lparr>rs_status = rs_status rs, rs_headers = hs,
                    rs_body = textEncode P (jsonStringify P x)\<rparr>,
              fst (snd (fetch P env now1 iv db r1)),
              [StoreRead (generateCacheKey P (rq_url r1))])"
proof -
  define ck where "ck = generateCacheKey P (rq_url r1)"
  define row where
    "row = \<lparr>row_key = ck, row_body = textEncode P sealed, row_status = rs_status rs,
             row_headers = headersToJson P (rs_headers rs), row_expires = expires,
             row_created_at = CURRENT_TIMESTAMP now1\<rparr>"
  define db1 where
    "db1 = db\<lparr>rows := filter (\<lambda>r. row_key r \<noteq> ck) (rows db) @ [row]\<rparr>"
  have on: "online db"
    using miss by (rule getCachedResponse_online)
  have ins: "d1_insert_or_replace db ck (textEncode P sealed) (rs_status rs)
               (headersToJson P (rs_headers rs)) expires now1 = Inr db1"
    using on by (simp add: d1_insert_or_replace_def db1_def row_def)
  have store: "cacheResponse P ck (textDecode P (rs_body rs)) rs (parseTTL (rq_headers r1)) db k
                 now1 iv = (Inr db1, [StoreWrite ck expires])"
    by (simp add: cacheResponse_stores [OF iso parse gz enc] ins)
  have run1: "fetch P env now1 iv db r1 = (Inr rs, db1, StoreRead ck # evs @ [StoreWrite ck expires])"
    using v1 key can miss up should store
    by (simp add: fetch_def Let_def ck_def)
  have found: "d1_first db1 ck now2 = Inr (Some row)"
    unfolding row_def by (rule d1_first_after_insert [OF ins fresh])
  have body: "decodeBody P (row_body row) k = Inr (jsonStringify P x)"
    unfolding row_def
    using stored_body_decodes_when_libraries_round_trip [OF gz enc lib1 lib2 lib3 lib4 lib5 lib6]
    by simp
  have status: "200 \<le> rs_status rs \<and> rs_status rs < 300"
    using should by (rule shouldCacheResponse_status)
  have new: "newResponse (textEncode P (jsonStringify P x)) (rs_status rs) hs
               = Inr \<lparr>rs_status = rs_status rs, rs_headers = hs,
                       rs_body = textEncode P (jsonStringify P x)\<rparr>"
    using status st by (auto simp: newResponse_def)
  have hit: "getCachedResponse P (generateCacheKey P (rq_url r2)) db1 k now2
               = Inr (Some \<lparr>rs_status = rs_status rs, rs_headers = hs,
                             rs_body = textEncode P (jsonStringify P x)\<rparr>)"
    using found body hdr new
    by (simp add: getCachedResponse_def parseD1Row_def url ck_def [symmetric] row_def)
  have run2: "fetch P env now2 iv2 db1 r2
                = (Inr \<lparr>rs_status = rs_status rs, rs_headers = hs,
                         rs_body = textEncode P (jsonStringify P x)\<rparr>,
                   db1, [StoreRead (generateCacheKey P (rq_url r2))])"
    using can by (intro fetch_on_hit [OF v2 key _ hit]) (simp add: url)
  show ?thesis
    using run1 run2 by (simp add: url ck_def generateCacheKey_hex)
qed

theorem head_served_from_get_witness:
  "rq_url exampleHead = rq_url exampleGet
   \<and> rq_method exampleGet = ''GET'' \<and> rq_method exampleHead = ''HEAD''
   \<and> rq_headers exampleHead \<noteq> rq_headers exampleGet
   \<and> generateCacheKey exampleRuntime (rq_url exampleHead)
       = ''68747470733a2f2f63616368652e6578616d706c652e776f726b6572732e6465762f726573742f76312f636f756e74726965733f73656c6563743d2a''
   \<and> getCachedResponse exampleRuntime (generateCacheKey exampleRuntime (rq_url exampleGet)) emptyDb
        exampleKey 1704067200000 = Inr None
   \<and> fetchFromSupabase exampleRuntime exampleGet (SUPABASE_URL exampleEnv)
       = (Inr exampleResponse,
          [UpstreamFetch \<lparr>rq_method = ''GET'',
             rq_url = ''https://project.supabase.co/rest/v1/countries?select=*'',
             rq_headers = [], rq_body = None\<rparr>])
   \<and> shouldCacheResponse exampleGet exampleResponse
   \<and> rs_status exampleResponse = 200 \<and> rs_body exampleResponse = ''[1,2,3]''
   \<and> textGreater ''2024-01-01T00:00:30.000Z'' (CURRENT_TIMESTAMP 1704067210000)
   \<and> fetch exampleRuntime exampleEnv 1704067200000 exampleIv emptyDb exampleGet
       = (Inr exampleResponse, exampleDb (generateCacheKey exampleRuntime exampleUrl),
          [StoreRead (generateCacheKey exampleRuntime exampleUrl),
           UpstreamFetch \<lparr>rq_method = ''GET'',
              rq_url = ''https://project.supabase.co/rest/v1/countries?select=*'',
              rq_headers = [], rq_body = None\<rparr>,
           StoreWrite (generateCacheKey exampleRuntime exampleUrl) ''2024-01-01T00:00:30.000Z''])
   \<and> fetch exampleRuntime exampleEnv 1704067210000 exampleIv
        (exampleDb (generateCacheKey exampleRuntime exampleUrl)) exampleHead
       = (Inr \<lparr>rs_status = 200, rs_headers = [(''content-type'', ''application/json'')],
                rs_body = ''[1,2,3]''\<rparr>,
          exampleDb (generateCacheKey exampleRuntime exampleUrl),
          [StoreRead (generateCacheKey exampleRuntime exampleUrl)])"
proof -
  have u: "rq_url exampleHead = rq_url exampleGet"
    by (simp add: ex_req)
  have v1: "isValidServiceKey (headers_get (rq_headers exampleGet) ''x-cache-service-key'')
              (SERVICE_AUTH_KEY exampleEnv)"
    unfolding exampleGet_def by (rule ex_valid)
  have v2: "isValidServiceKey (headers_get (rq_headers exampleHead) ''x-cache-service-key'')
              (SERVICE_AUTH_KEY exampleEnv)"
    unfolding exampleHead_def by (rule ex_valid)
  have c: "canCacheEndpoint (rq_url exampleGet)"
    by (simp add: ex_req ex_cacheable)
  have m: "getCachedResponse exampleRuntime (generateCacheKey exampleRuntime (rq_url exampleGet))
             emptyDb exampleKey 1704067200000 = Inr None"
    by (rule ex_lookup_empty)
  have up: "fetchFromSupabase exampleRuntime exampleGet (SUPABASE_URL exampleEnv)
       = (Inr exampleResponse,
          [UpstreamFetch \<lparr>rq_method = ''GET'',
             rq_url = ''https://project.supabase.co/rest/v1/countries?select=*'',
             rq_headers = [], rq_body = None\<rparr>])"
    by (simp add: ex_supabase ex_upstream)
  have st: "rs_status exampleResponse \<notin> {204, 205}"
    by (simp add: exampleResponse_def)
  have iso: "toISOString (1704067200000 + parseTTL (rq_headers exampleGet) * 1000)
               = Inr ''2024-01-01T00:00:30.000Z''"
    by (simp add: ex_ttl ex_iso)
  have parse: "jsonParse exampleRuntime (textDecode exampleRuntime (rs_body exampleResponse))
                 = Inr ''[1,2,3]''"
    by (simp add: ex_fields exampleResponse_def)
  have gz: "gzipCompress exampleRuntime
              (jsonStringify exampleRuntime (compress exampleRuntime ''[1,2,3]''))
              = Inr ''R1pbMSwyLDNd''"
    by (simp add: ex_fields ex_gz)
  have lib1: "decompress exampleRuntime (compress exampleRuntime ''[1,2,3]'') = Inr ''[1,2,3]''"
    by (simp add: ex_fields)
  have lib2: "jsonParse exampleRuntime
                (jsonStringify exampleRuntime (compress exampleRuntime ''[1,2,3]''))
                = Inr (compress exampleRuntime ''[1,2,3]'')"
    by (simp add: ex_fields)
  have lib3: "ungzip exampleRuntime
                (gzip exampleRuntime
                   (jsonStringify exampleRuntime (compress exampleRuntime ''[1,2,3]'')))
                = Inr (jsonStringify exampleRuntime (compress exampleRuntime ''[1,2,3]''))"
    by (simp add: ex_fields exUngzip_def)
  have lib4: "aesGcmDecrypt exampleRuntime exampleKey exampleIv
                (aesGcmEncrypt exampleRuntime exampleKey exampleIv
                   (textEncode exampleRuntime ''R1pbMSwyLDNd''))
                = Inr (textEncode exampleRuntime ''R1pbMSwyLDNd'')"
    by (simp add: ex_fields ex_seal ex_open)
  have lib5: "textDecode exampleRuntime (textEncode exampleRuntime ''R1pbMSwyLDNd'')
                = ''R1pbMSwyLDNd''"
    by (simp add: ex_fields)
  have lib6: "textDecode exampleRuntime (textEncode exampleRuntime exampleEnvelope)
                = exampleEnvelope"
    by (simp add: ex_fields)
  have hdr: "headersFromJson exampleRuntime
               (headersToJson exampleRuntime (rs_headers exampleResponse))
               = Inr [(''content-type'', ''application/json'')]"
    by (simp add: ex_fields exampleResponse_def ex_headers)
  have fresh: "textGreater ''2024-01-01T00:00:30.000Z'' (CURRENT_TIMESTAMP 1704067210000)"
    by (simp add: ex_times)
  have n: "rq_headers exampleHead \<noteq> rq_headers exampleGet"
    by (simp add: exampleHead_def exampleGet_def exampleRequest_def)
  have r: "rs_status exampleResponse = 200" "rs_body exampleResponse = ''[1,2,3]''"
    by (simp_all add: exampleResponse_def)
  note T = cache_key_depends_on_url_only
    [OF u v1 v2 ex_import(1) c m up ex_should st iso parse gz ex_encrypt lib1 lib2 lib3 lib4
        lib5 lib6 hdr fresh, of exampleIv]
  have k: "generateCacheKey exampleRuntime (rq_url exampleHead)
       = ''68747470733a2f2f63616368652e6578616d706c652e776f726b6572732e6465762f726573742f76312f636f756e74726965733f73656c6563743d2a''"
    using T [THEN conjunct2, THEN conjunct1] by (simp add: ex_req ex_fields ex_key)
  have run1: "fetch exampleRuntime exampleEnv 1704067200000 exampleIv emptyDb exampleGet
       = (Inr exampleResponse, exampleDb (generateCacheKey exampleRuntime exampleUrl),
          [StoreRead (generateCacheKey exampleRuntime exampleUrl),
           UpstreamFetch \<lparr>rq_method = ''GET'',
              rq_url = ''https://project.supabase.co/rest/v1/countries?select=*'',
              rq_headers = [], rq_body = None\<rparr>,
           StoreWrite (generateCacheKey exampleRuntime exampleUrl) ''2024-01-01T00:00:30.000Z''])"
    by (rule ex_run_get)
  have run2: "fetch exampleRuntime exampleEnv 1704067210000 exampleIv
        (exampleDb (generateCacheKey exampleRuntime exampleUrl)) exampleHead
       = (Inr \<lparr>rs_status = 200, rs_headers = [(''content-type'', ''application/json'')],
                rs_body = ''[1,2,3]''\<rparr>,
          exampleDb (generateCacheKey exampleRuntime exampleUrl),
          [StoreRead (generateCacheKey exampleRuntime exampleUrl)])"
    using T [THEN conjunct2, THEN conjunct2, THEN conjunct2, THEN conjunct2]
    by (simp add: run1 ex_req ex_fields r)
  show ?thesis
    using u n k m up ex_should r fresh run1 run2 by (simp add: ex_req)
qed

subsection \<open>Expiry\<close>

text \<open>
  The worker stores the expiry as the ISO text of \<^verbatim>\<open>Date.now() + ttl * 1000\<close>, with a
  \<^verbatim>\<open>T\<close> between date and time, and the query compares it as text with
  \<^verbatim>\<open>CURRENT_TIMESTAMP\<close>, which has a space there. On one and the same UTC date the stored
  text is therefore always the greater one, whatever the two times of day are.
\<close>

lemma iso_text_after_sqlite_text:
  "textGreater (d @ CHR ''T'' # x) (d @ CHR '' '' # y)"
  by (induction d) simp_all

text \<open>
  So a row whose expiry lies on the UTC date of the lookup passes the filter of the
  query, whether the expiry is before or after the time of the lookup.
\<close>

lemma same_utc_date_is_never_expired:
  assumes "t div 86400000 = now div 86400000"
    and "\<bar>t\<bar> \<le> 8640000000000000"
    and "0 \<le> fst (civil (t div 86400000))" and "fst (civil (t div 86400000)) \<le> 9999"
  shows "\<exists>expires. toISOString t = Inr expires \<and> textGreater expires (CURRENT_TIMESTAMP now)"
proof -
  obtain y m d where c: "civil (t div 86400000) = (y, m, d)"
    by (cases "civil (t div 86400000)")
  have y: "0 \<le> y" "y \<le> 9999"
    using assms(3,4) c by simp_all
  define D where "D = padStart 4 (natToString (nat y)) @ ''-'' @ pad2 (int m) @ ''-'' @ pad2 (int d)"
  have g: "\<And>x z. textGreater (D @ CHR ''T'' # x) (D @ CHR '' '' # z)"
    by (rule iso_text_after_sqlite_text)
  show ?thesis
    using assms(1,2) c y g
    by (simp add: toISOString_def CURRENT_TIMESTAMP_def isoYear_def Let_def D_def)
qed

text \<open>
  Claim C1 says that an entry written with TTL \<open>T\<close> is a miss one second after
  \<open>writeTime + T\<close>. The code does not do that. The example entry is written at
  2024-01-01 00:00:00 UTC with \<^verbatim>\<open>X-TTL: 30\<close>; one second before its expiry it is a hit, as
  claimed, but one second after, and still at 23:59:59 of that day, the lookup finds
  the row and the handler serves it without asking upstream. The row stops being found
  only when the UTC date changes.
\<close>

theorem expired_entry_is_still_served:
  "parseTTL (rq_headers exampleGet) = 30
   \<and> fetch exampleRuntime exampleEnv 1704067200000 exampleIv emptyDb exampleGet
     = (Inr exampleResponse, exampleDb (generateCacheKey exampleRuntime exampleUrl),
        [StoreRead (generateCacheKey exampleRuntime exampleUrl),
         UpstreamFetch \<lparr>rq_method = ''GET'',
            rq_url = ''https://project.supabase.co/rest/v1/countries?select=*'',
            rq_headers = [], rq_body = None\<rparr>,
         StoreWrite (generateCacheKey exampleRuntime exampleUrl) ''2024-01-01T00:00:30.000Z''])
   \<and> toISOString (1704067200000 + 30 * 1000) = Inr ''2024-01-01T00:00:30.000Z''
   \<and> CURRENT_TIMESTAMP 1704067229000 = ''2024-01-01 00:00:29''
   \<and> CURRENT_TIMESTAMP 1704067231000 = ''2024-01-01 00:00:31''
   \<and> CURRENT_TIMESTAMP 1704153599000 = ''2024-01-01 23:59:59''
   \<and> CURRENT_TIMESTAMP 1704153600000 = ''2024-01-02 00:00:00''
   \<and> fetch exampleRuntime exampleEnv 1704067229000 exampleIv
        (exampleDb (generateCacheKey exampleRuntime exampleUrl)) exampleGet
       = (Inr exampleCached, exampleDb (generateCacheKey exampleRuntime exampleUrl),
          [StoreRead (generateCacheKey exampleRuntime exampleUrl)])
   \<and> fetch exampleRuntime exampleEnv 1704067231000 exampleIv
        (exampleDb (generateCacheKey exampleRuntime exampleUrl)) exampleGet
       = (Inr exampleCached, exampleDb (generateCacheKey exampleRuntime exampleUrl),
          [StoreRead (generateCacheKey exampleRuntime exampleUrl)])
   \<and> fetch exampleRuntime exampleEnv 1704153599000 exampleIv
        (exampleDb (generateCacheKey exampleRuntime exampleUrl)) exampleGet
       = (Inr exampleCached, exampleDb (generateCacheKey exampleRuntime exampleUrl),
          [StoreRead (generateCacheKey exampleRuntime exampleUrl)])
   \<and> d1_first (exampleDb (generateCacheKey exampleRuntime exampleUrl))
        (generateCacheKey exampleRuntime exampleUrl) 1704153600000 = Inr None"
proof -
  have v: "isValidServiceKey (headers_get (rq_headers exampleGet) ''x-cache-service-key'')
             (SERVICE_AUTH_KEY exampleEnv)"
    unfolding exampleGet_def by (rule ex_valid)
  have c: "canCacheEndpoint (rq_url exampleGet)"
    by (simp add: ex_req ex_cacheable)
  have hit: "fetch exampleRuntime exampleEnv now exampleIv
        (exampleDb (generateCacheKey exampleRuntime exampleUrl)) exampleGet
       = (Inr exampleCached, exampleDb (generateCacheKey exampleRuntime exampleUrl),
          [StoreRead (generateCacheKey exampleRuntime exampleUrl)])"
    if "textGreater ''2024-01-01T00:00:30.000Z'' (CURRENT_TIMESTAMP now)" for now
    using fetch_on_hit [OF v ex_import(1) c, of "exampleDb (generateCacheKey exampleRuntime exampleUrl)"
        now exampleCached exampleIv] ex_lookup_hit [OF that]
    by (simp add: ex_req)
  have h1: "fetch exampleRuntime exampleEnv 1704067229000 exampleIv
        (exampleDb (generateCacheKey exampleRuntime exampleUrl)) exampleGet
       = (Inr exampleCached, exampleDb (generateCacheKey exampleRuntime exampleUrl),
          [StoreRead (generateCacheKey exampleRuntime exampleUrl)])"
    by (rule hit) (simp add: ex_times)
  have h2: "fetch exampleRuntime exampleEnv 1704067231000 exampleIv
        (exampleDb (generateCacheKey exampleRuntime exampleUrl)) exampleGet
       = (Inr exampleCached, exampleDb (generateCacheKey exampleRuntime exampleUrl),
          [StoreRead (generateCacheKey exampleRuntime exampleUrl)])"
    by (rule hit) (simp add: ex_times)
  have h3: "fetch exampleRuntime exampleEnv 1704153599000 exampleIv
        (exampleDb (generateCacheKey exampleRuntime exampleUrl)) exampleGet
       = (Inr exampleCached, exampleDb (generateCacheKey exampleRuntime exampleUrl),
          [StoreRead (generateCacheKey exampleRuntime exampleUrl)])"
    by (rule hit) (simp add: ex_times)
  have m: "d1_first (exampleDb (generateCacheKey exampleRuntime exampleUrl))
        (generateCacheKey exampleRuntime exampleUrl) 1704153600000 = Inr None"
    by (rule ex_find(2)) (simp add: ex_times)
  show ?thesis
    using ex_ttl ex_run_get ex_iso ex_times h1 h2 h3 m by simp
qed

end
